theory Spec2Isabelle
  imports Complex_Main "HOL-Library.Sublist"
begin

section \<open>Python text\<close>

text \<open>
  A Python \<open>str\<close> is modelled as a \<open>string\<close>: one \<open>char\<close> per ASCII character, and
  the UTF-8 bytes of any other character. The operations below classify and change ASCII
  characters only, so text with Unicode spaces or cased letters beyond ASCII is outside
  what the model tracks.
\<close>

abbreviation NL :: char where "NL \<equiv> CHR 0x0A"
abbreviation SP :: char where "SP \<equiv> CHR 0x20"
abbreviation BQ :: char where "BQ \<equiv> CHR 0x60"

text \<open>\<open>str.isspace\<close> on one ASCII character; the class \<open>\s\<close> of \<open>re\<close> is the same set.\<close>

definition is_space :: "char \<Rightarrow> bool" where
  "is_space c = (c \<in> {CHR 0x09, CHR 0x0A, CHR 0x0B, CHR 0x0C, CHR 0x0D,
                       CHR 0x1C, CHR 0x1D, CHR 0x1E, CHR 0x1F, CHR 0x20})"

definition lstrip :: "string \<Rightarrow> string" where
  "lstrip s = dropWhile is_space s"

definition rstrip :: "string \<Rightarrow> string" where
  "rstrip s = rev (dropWhile is_space (rev s))"

definition strip :: "string \<Rightarrow> string" where
  "strip s = rstrip (lstrip s)"

text \<open>\<open>s.split(sep)\<close> for a one-character separator: never an empty list.\<close>

fun split_on :: "char \<Rightarrow> string \<Rightarrow> string list" where
  "split_on sep [] = [[]]"
| "split_on sep (c # cs) =
     (if c = sep then [] # split_on sep cs
      else (case split_on sep cs of
              [] \<Rightarrow> [[c]]
            | l # ls \<Rightarrow> (c # l) # ls))"

text \<open>\<open>sep.join(parts)\<close>.\<close>

fun join :: "string \<Rightarrow> string list \<Rightarrow> string" where
  "join sep [] = []"
| "join sep [p] = p"
| "join sep (p # q # ps) = p @ sep @ join sep (q # ps)"

text \<open>\<open>s.replace(old, new)\<close> for a non-empty \<open>old\<close>: leftmost occurrences, not overlapping.\<close>

function replace :: "string \<Rightarrow> string \<Rightarrow> string \<Rightarrow> string" where
  "replace old new [] = []"
| "replace old new (c # cs) =
     (if old \<noteq> [] \<and> prefix old (c # cs)
      then new @ replace old new (drop (length old) (c # cs))
      else c # replace old new cs)"
  by pat_completeness auto
termination
  by (relation "measure (\<lambda>(old, new, s). length s)") (auto simp: Suc_le_eq)

definition startswith :: "string \<Rightarrow> string \<Rightarrow> bool" where
  "startswith s p = prefix p s"

definition endswith :: "string \<Rightarrow> string \<Rightarrow> bool" where
  "endswith s p = suffix p s"

text \<open>\<open>needle in haystack\<close> on two strings.\<close>

fun contains :: "string \<Rightarrow> string \<Rightarrow> bool" where
  "contains [] needle = (needle = [])"
| "contains (c # cs) needle = (prefix needle (c # cs) \<or> contains cs needle)"

text \<open>\<open>str.lower\<close> and \<open>str.upper\<close> on one ASCII character.\<close>

definition lower_char :: "char \<Rightarrow> char" where
  "lower_char c =
     (let n = (of_char c :: nat) in if 65 \<le> n \<and> n \<le> 90 then char_of (n + 32) else c)"

definition upper_char :: "char \<Rightarrow> char" where
  "upper_char c =
     (let n = (of_char c :: nat) in if 97 \<le> n \<and> n \<le> 122 then char_of (n - 32) else c)"

definition lower :: "string \<Rightarrow> string" where
  "lower s = map lower_char s"

text \<open>\<open>str.capitalize\<close>: first character upper case, the rest lower case.\<close>

fun capitalize :: "string \<Rightarrow> string" where
  "capitalize [] = []"
| "capitalize (c # cs) = upper_char c # map lower_char cs"

section \<open>Narrative sanitisation: \<open>clean_text\<close>\<close>

text \<open>
  The header loop of \<open>clean_text\<close>: each line is stripped, and one leading heading marker
  (\<open># \<close>, \<open>## \<close> or \<open>### \<close>) is cut off.
\<close>

definition strip_header :: "string \<Rightarrow> string" where
  "strip_header raw =
     (let line = strip raw in
      if startswith line ''# '' then drop 2 line
      else if startswith line ''## '' then drop 3 line
      else if startswith line ''### '' then drop 4 line
      else line)"

text \<open>
  \<open>re.sub(' +', ' ', text)\<close>: every maximal run of spaces becomes one space. The flag
  says that the previous character was a space of the current run.
\<close>

fun sub_spaces :: "bool \<Rightarrow> string \<Rightarrow> string" where
  "sub_spaces in_run [] = []"
| "sub_spaces in_run (c # cs) =
     (if c = SP then (if in_run then sub_spaces True cs else c # sub_spaces True cs)
      else c # sub_spaces False cs)"

text \<open>
  \<open>re.sub(r'\n\s+', '\n', text)\<close>: a newline together with all the whitespace that
  follows it becomes one newline. The flag says that a newline has just been written and
  its trailing whitespace is being consumed.
\<close>

fun sub_nl_space :: "bool \<Rightarrow> string \<Rightarrow> string" where
  "sub_nl_space after_nl [] = []"
| "sub_nl_space after_nl (c # cs) =
     (if after_nl \<and> is_space c then sub_nl_space True cs
      else c # sub_nl_space (c = NL) cs)"

text \<open>
  \<open>re.sub(r'```[\s\S]*?```', '', text)\<close>: from an opening fence up to the nearest closing
  fence, everything is removed, fences included. \<open>after_fence s\<close> is what follows the first
  fence in \<open>s\<close>, if there is one.
\<close>

fun after_fence :: "string \<Rightarrow> string option" where
  "after_fence [] = None"
| "after_fence (c # cs) =
     (if prefix [BQ, BQ, BQ] (c # cs) then Some (drop 3 (c # cs)) else after_fence cs)"

lemma after_fence_length: "after_fence s = Some r \<Longrightarrow> length r + 3 \<le> length s"
proof (induction s)
  case Nil
  then show ?case by simp
next
  case (Cons c cs)
  show ?case
  proof (cases "prefix [BQ, BQ, BQ] (c # cs)")
    case True
    then have "3 \<le> length (c # cs)"
      using prefix_length_le by fastforce
    moreover from True Cons.prems have "r = drop 3 (c # cs)"
      by (simp only: after_fence.simps if_True option.inject)
    ultimately show ?thesis by simp
  next
    case False
    with Cons.prems have "after_fence cs = Some r"
      by (simp only: after_fence.simps if_False)
    then have "length r + 3 \<le> length cs" by (rule Cons.IH)
    then show ?thesis by simp
  qed
qed

function remove_code_blocks :: "string \<Rightarrow> string" where
  "remove_code_blocks [] = []"
| "remove_code_blocks (c # cs) =
     (if prefix [BQ, BQ, BQ] (c # cs)
      then (case after_fence (drop 3 (c # cs)) of
              Some rest \<Rightarrow> remove_code_blocks rest
            | None \<Rightarrow> c # remove_code_blocks cs)
      else c # remove_code_blocks cs)"
  by pat_completeness auto
termination
proof (relation "measure length")
  show "wf (measure length)" by simp
next
  fix c cs rest
  assume "after_fence (drop 3 (c # cs)) = Some rest"
  then have "length rest + 3 \<le> length (drop 3 (c # cs))"
    by (rule after_fence_length)
  then show "(rest, c # cs) \<in> measure length" by simp
qed auto

definition clean_text :: "string \<Rightarrow> string" where
  "clean_text text0 =
     (let text1 = strip text0;
          text2 = replace ''**'' [] text1;
          text3 = replace ''*'' [] text2;
          lines = map strip_header (split_on NL text3);
          text4 = join [NL] lines;
          text5 = sub_spaces False text4;
          text6 = sub_nl_space False text5;
          text7 = lstrip text6;
          cleaned_lines = map lstrip (split_on NL text7);
          text8 = join [NL] cleaned_lines
      in remove_code_blocks text8)"

text \<open>The narrative text of the sanitisation scenario.\<close>

definition scenario_text :: string where
  "scenario_text =
     ''**Hello**'' @ [NL] @ ''  # Greetings'' @ [NL] @ ''  '' @ [BQ, BQ, BQ] @ ''code''
       @ [BQ, BQ, BQ] @ [NL] @ ''Goodbye''"

section \<open>Python values, exceptions and the platform\<close>

text \<open>
  A decoded JSON payload. Python distinguishes \<open>int\<close> from \<open>float\<close> when it prints a
  number, so both are kept; a float is taken as the rational it stands for, which leaves
  the rounding of binary floating point (and \<open>inf\<close>, \<open>nan\<close>) outside the model. A dict is
  an association list; a key is looked up by \<open>map_of\<close>.
\<close>

datatype pyval =
    PNone
  | PBool bool
  | PInt int
  | PFloat rat
  | PStr string
  | PList "pyval list"
  | PDict "(string \<times> pyval) list"

text \<open>
  The exceptions that the code can raise. \<open>Raised msg\<close> is an exception of a collaborator
  or of the platform (a timeout, an HTTP error, a timestamp out of range), with its text.
\<close>

datatype pyerr =
    KeyError
  | IndexError
  | TypeError
  | ValueError
  | AttributeError
  | Raised string

definition bind_err :: "'e + 'a \<Rightarrow> ('a \<Rightarrow> 'e + 'b) \<Rightarrow> 'e + 'b" where
  "bind_err m f = (case m of Inl e \<Rightarrow> Inl e | Inr x \<Rightarrow> f x)"

lemma bind_err_Inl [simp]: "bind_err (Inl e) f = Inl e"
  by (simp add: bind_err_def)

lemma bind_err_Inr [simp]: "bind_err (Inr x) f = f x"
  by (simp add: bind_err_def)

lemma bind_err_eq_Inr: "bind_err m f = Inr y \<longleftrightarrow> (\<exists>x. m = Inr x \<and> f x = Inr y)"
  by (cases m) simp_all

text \<open>The result of \<open>datetime.fromtimestamp\<close>, in local time.\<close>

record datetime =
  dt_year :: nat
  dt_month :: nat
  dt_day :: nat
  dt_hour :: nat
  dt_minute :: nat
  dt_second :: nat

text \<open>
  What the code takes from the Python runtime and cannot be computed from the payload:
  the local-time conversion of \<open>datetime.fromtimestamp\<close> (it depends on the time zone of
  the machine and raises on a timestamp it cannot convert), the text \<open>str\<close> gives for a
  float, a list or a dict, the parser of \<open>float\<close> on a string (\<open>None\<close> where it raises
  \<open>ValueError\<close>), and the text of a built-in exception.
\<close>

record platform =
  fromtimestamp :: "pyval \<Rightarrow> pyerr + datetime"
  repr_other :: "pyval \<Rightarrow> string"
  float_of_str :: "string \<Rightarrow> rat option"
  builtin_text :: "pyerr \<Rightarrow> string"

subsection \<open>Numbers as text\<close>

definition digit_char :: "nat \<Rightarrow> char" where
  "digit_char d = char_of (48 + d)"

fun nat_str :: "nat \<Rightarrow> string" where
  "nat_str n = (if n < 10 then [digit_char n] else nat_str (n div 10) @ [digit_char (n mod 10)])"

declare nat_str.simps [simp del]

definition int_str :: "int \<Rightarrow> string" where
  "int_str i = (if i < 0 then ''-'' @ nat_str (nat (- i)) else nat_str (nat i))"

text \<open>Two digits, as \<open>%H\<close>, \<open>%M\<close>, \<open>%S\<close>, \<open>%m\<close> and \<open>%d\<close> of \<open>strftime\<close> print them.\<close>

definition pad2 :: "nat \<Rightarrow> string" where
  "pad2 n = (if n < 10 then ''0'' @ nat_str n else nat_str n)"

definition pad4 :: "nat \<Rightarrow> string" where
  "pad4 n = replicate (4 - length (nat_str n)) (CHR ''0'') @ nat_str n"

definition strftime_HM :: "datetime \<Rightarrow> string" where
  "strftime_HM d = pad2 (dt_hour d) @ '':'' @ pad2 (dt_minute d)"

definition strftime_HMS :: "datetime \<Rightarrow> string" where
  "strftime_HMS d = pad2 (dt_hour d) @ '':'' @ pad2 (dt_minute d) @ '':'' @ pad2 (dt_second d)"

definition strftime_full :: "datetime \<Rightarrow> string" where
  "strftime_full d =
     pad4 (dt_year d) @ ''-'' @ pad2 (dt_month d) @ ''-'' @ pad2 (dt_day d) @ '' ''
       @ strftime_HMS d"

text \<open>Rounding to the nearest integer, a tie going to the even one.\<close>

definition round_half_even :: "rat \<Rightarrow> int" where
  "round_half_even r =
     (let f = \<lfloor>r\<rfloor>; d = r - of_int f in
      if d < 1 / 2 then f
      else if 1 / 2 < d then f + 1
      else if even f then f else f + 1)"

text \<open>The format \<open>.0f\<close> on a number: no fraction digits, and the sign of a negative number
  is kept when it rounds to zero.\<close>

definition fixed0 :: "rat \<Rightarrow> string" where
  "fixed0 r = (if r < 0 then ''-'' else []) @ nat_str (nat \<bar>round_half_even r\<bar>)"

subsection \<open>Operations on values\<close>

text \<open>\<open>bool(v)\<close>, as \<open>not v\<close> and \<open>if v\<close> read it.\<close>

fun truthy :: "pyval \<Rightarrow> bool" where
  "truthy PNone = False"
| "truthy (PBool b) = b"
| "truthy (PInt i) = (i \<noteq> 0)"
| "truthy (PFloat r) = (r \<noteq> 0)"
| "truthy (PStr s) = (s \<noteq> [])"
| "truthy (PList xs) = (xs \<noteq> [])"
| "truthy (PDict kvs) = (kvs \<noteq> [])"

text \<open>The value of a number; a \<open>bool\<close> is an \<open>int\<close> in Python.\<close>

fun num_val :: "pyval \<Rightarrow> rat option" where
  "num_val (PInt i) = Some (of_int i)"
| "num_val (PFloat r) = Some r"
| "num_val (PBool b) = Some (of_bool b)"
| "num_val _ = None"

text \<open>\<open>str(v)\<close>, as an f-string writes a value without a format.\<close>

fun py_str :: "platform \<Rightarrow> pyval \<Rightarrow> string" where
  "py_str env PNone = ''None''"
| "py_str env (PBool b) = (if b then ''True'' else ''False'')"
| "py_str env (PInt i) = int_str i"
| "py_str env (PStr s) = s"
| "py_str env v = repr_other env v"

text \<open>\<open>v.get(key, default)\<close>: only a dict has the method.\<close>

fun py_get :: "pyval \<Rightarrow> string \<Rightarrow> pyval \<Rightarrow> pyerr + pyval" where
  "py_get (PDict kvs) k d = Inr (case map_of kvs k of Some v \<Rightarrow> v | None \<Rightarrow> d)"
| "py_get _ k d = Inl AttributeError"

text \<open>\<open>v[key]\<close> with a string key.\<close>

fun py_getitem :: "pyval \<Rightarrow> string \<Rightarrow> pyerr + pyval" where
  "py_getitem (PDict kvs) k = (case map_of kvs k of Some v \<Rightarrow> Inr v | None \<Rightarrow> Inl KeyError)"
| "py_getitem _ k = Inl TypeError"

text \<open>\<open>v[0]\<close>. The keys of a decoded JSON object are strings, so \<open>0\<close> is never one.\<close>

fun py_first :: "pyval \<Rightarrow> pyerr + pyval" where
  "py_first (PList []) = Inl IndexError"
| "py_first (PList (x # xs)) = Inr x"
| "py_first (PStr []) = Inl IndexError"
| "py_first (PStr (c # cs)) = Inr (PStr [c])"
| "py_first (PDict kvs) = Inl KeyError"
| "py_first _ = Inl TypeError"

text \<open>\<open>key in v\<close> with a string key.\<close>

fun py_in :: "string \<Rightarrow> pyval \<Rightarrow> pyerr + bool" where
  "py_in k (PDict kvs) = Inr (k \<in> set (map fst kvs))"
| "py_in k (PList xs) = Inr (PStr k \<in> set xs)"
| "py_in k (PStr s) = Inr (contains s k)"
| "py_in k _ = Inl TypeError"

text \<open>\<open>len(v)\<close>.\<close>

fun py_len :: "pyval \<Rightarrow> pyerr + nat" where
  "py_len (PList xs) = Inr (length xs)"
| "py_len (PStr s) = Inr (length s)"
| "py_len (PDict kvs) = Inr (length kvs)"
| "py_len _ = Inl TypeError"

text \<open>The elements a \<open>for\<close> loop over \<open>v\<close> visits.\<close>

fun py_iter :: "pyval \<Rightarrow> pyerr + pyval list" where
  "py_iter (PList xs) = Inr xs"
| "py_iter (PStr s) = Inr (map (\<lambda>c. PStr [c]) s)"
| "py_iter (PDict kvs) = Inr (map (\<lambda>kv. PStr (fst kv)) kvs)"
| "py_iter _ = Inl TypeError"

text \<open>The elements of the slice \<open>v[:n]\<close>; a dict cannot be sliced.\<close>

fun py_slice_to :: "nat \<Rightarrow> pyval \<Rightarrow> pyerr + pyval list" where
  "py_slice_to n (PList xs) = Inr (take n xs)"
| "py_slice_to n (PStr s) = Inr (map (\<lambda>c. PStr [c]) (take n s))"
| "py_slice_to n _ = Inl TypeError"

text \<open>\<open>v / 1000\<close>: true division, the result is a float.\<close>

definition py_div_1000 :: "pyval \<Rightarrow> pyerr + pyval" where
  "py_div_1000 v = (case num_val v of Some r \<Rightarrow> Inr (PFloat (r / 1000)) | None \<Rightarrow> Inl TypeError)"

text \<open>\<open>v * 100\<close>: a number is multiplied, a string or a list is repeated.\<close>

fun py_mul_100 :: "pyval \<Rightarrow> pyerr + pyval" where
  "py_mul_100 (PInt i) = Inr (PInt (i * 100))"
| "py_mul_100 (PBool b) = Inr (PInt (of_bool b * 100))"
| "py_mul_100 (PFloat r) = Inr (PFloat (r * 100))"
| "py_mul_100 (PStr s) = Inr (PStr (concat (replicate 100 s)))"
| "py_mul_100 (PList xs) = Inr (PList (concat (replicate 100 xs)))"
| "py_mul_100 _ = Inl TypeError"

text \<open>The format \<open>:.0f\<close> of an f-string: a string refuses the format code with
  \<open>ValueError\<close>, every other value that is not a number with \<open>TypeError\<close>.\<close>

fun format_0f :: "pyval \<Rightarrow> pyerr + string" where
  "format_0f (PStr s) = Inl ValueError"
| "format_0f v = (case num_val v of Some r \<Rightarrow> Inr (fixed0 r) | None \<Rightarrow> Inl TypeError)"

text \<open>
  \<open>a > b\<close> where \<open>b\<close> is a number (the running maximum is one): with a number on the left
  the values are compared, with anything else Python raises \<open>TypeError\<close>.
\<close>

definition py_gt :: "pyval \<Rightarrow> pyval \<Rightarrow> pyerr + bool" where
  "py_gt a b =
     (case (num_val a, num_val b) of
        (Some x, Some y) \<Rightarrow> Inr (y < x)
      | _ \<Rightarrow> Inl TypeError)"

text \<open>\<open>v.capitalize()\<close>: only a string has the method.\<close>

fun py_capitalize :: "pyval \<Rightarrow> pyerr + string" where
  "py_capitalize (PStr s) = Inr (capitalize s)"
| "py_capitalize _ = Inl AttributeError"

text \<open>The degree sign of the summaries, in UTF-8.\<close>

definition degree_C :: string where
  "degree_C = [CHR 0xC2, CHR 0xB0, CHR ''C'']"

definition degree :: string where
  "degree = [CHR 0xC2, CHR 0xB0]"

text \<open>The summary both aggregation functions return: a Python dict from names to values.\<close>

type_synonym summary = "string \<rightharpoonup> pyval"

section \<open>Forecast aggregation\<close>

text \<open>\<open>v.get('weather', [{}])[0].get(key, default)\<close>.\<close>

definition weather_field :: "pyval \<Rightarrow> string \<Rightarrow> string \<Rightarrow> pyerr + pyval" where
  "weather_field v k d =
     bind_err (py_get v ''weather'' (PList [PDict []])) (\<lambda>w.
     bind_err (py_first w) (\<lambda>w0.
     py_get w0 k (PStr d)))"

text \<open>\<open>v.get(outer, {}).get(inner, default)\<close>.\<close>

definition nested_get :: "pyval \<Rightarrow> string \<Rightarrow> string \<Rightarrow> pyval \<Rightarrow> pyerr + pyval" where
  "nested_get v outer inner d =
     bind_err (py_get v outer (PDict [])) (\<lambda>sub. py_get sub inner d)"

text \<open>\<open>v[outer][inner]\<close>.\<close>

definition nested_item :: "pyval \<Rightarrow> string \<Rightarrow> string \<Rightarrow> pyerr + pyval" where
  "nested_item v outer inner = bind_err (py_getitem v outer) (\<lambda>sub. py_getitem sub inner)"

text \<open>\<open>datetime.fromtimestamp(ts).strftime(fmt) if ts else 'Unknown'\<close>.\<close>

definition time_if_set :: "platform \<Rightarrow> (datetime \<Rightarrow> string) \<Rightarrow> pyval \<Rightarrow> pyerr + string" where
  "time_if_set env fmt ts =
     (if truthy ts then bind_err (fromtimestamp env ts) (\<lambda>d. Inr (fmt d))
      else Inr ''Unknown'')"

subsection \<open>\<open>handle_weather_data\<close>\<close>

text \<open>
  The result is \<open>None\<close> where the function returns Python's \<open>None\<close>. The statements are
  bound in the order of the source, so the first one that raises decides the exception.
\<close>

definition handle_weather_data :: "platform \<Rightarrow> pyval \<Rightarrow> pyerr + summary option" where
  "handle_weather_data env weather_data =
     (if \<not> truthy weather_data then Inr None else
      bind_err (py_in ''main'' weather_data) (\<lambda>has_main.
      if \<not> has_main then Inr None else
      bind_err (py_get weather_data ''name'' (PStr ''Unknown location'')) (\<lambda>location.
      bind_err (nested_get weather_data ''sys'' ''country'' (PStr [])) (\<lambda>country.
      bind_err (nested_item weather_data ''main'' ''temp'') (\<lambda>current_temperature.
      bind_err (nested_item weather_data ''main'' ''temp_min'') (\<lambda>temp_min.
      bind_err (nested_item weather_data ''main'' ''temp_max'') (\<lambda>temp_max.
      bind_err (nested_item weather_data ''main'' ''feels_like'') (\<lambda>feels_like.
      bind_err (weather_field weather_data ''main'' ''unknown'') (\<lambda>weather_type.
      bind_err (weather_field weather_data ''description'' ''unknown'') (\<lambda>weather_description.
      bind_err (nested_item weather_data ''main'' ''humidity'') (\<lambda>humidity.
      bind_err (nested_item weather_data ''main'' ''pressure'') (\<lambda>pressure.
      bind_err (nested_get weather_data ''wind'' ''speed'' (PStr ''Unknown'')) (\<lambda>wind_speed.
      bind_err (nested_get weather_data ''wind'' ''deg'' (PStr ''Unknown'')) (\<lambda>wind_direction.
      bind_err (bind_err (py_get weather_data ''visibility'' (PStr ''Unknown'')) py_div_1000)
        (\<lambda>visibility.
      bind_err (py_get weather_data ''dt'' PNone) (\<lambda>dt_timestamp.
      bind_err (nested_get weather_data ''sys'' ''sunrise'' PNone) (\<lambda>sunrise_timestamp.
      bind_err (nested_get weather_data ''sys'' ''sunset'' PNone) (\<lambda>sunset_timestamp.
      bind_err (time_if_set env strftime_full dt_timestamp) (\<lambda>current_time.
      bind_err (time_if_set env strftime_HMS sunrise_timestamp) (\<lambda>sunrise_time.
      bind_err (time_if_set env strftime_HMS sunset_timestamp) (\<lambda>sunset_time.
      bind_err (py_capitalize weather_type) (\<lambda>weather_type_cap.
      Inr (Some (map_of
        [(''location'', PStr (py_str env location)),
         (''temperature'', PStr (py_str env current_temperature @ degree_C @ '' (feels like ''
             @ py_str env feels_like @ degree_C @ '')'')),
         (''temperature_range'', PStr (''Min: '' @ py_str env temp_min @ degree_C @ '', Max: ''
             @ py_str env temp_max @ degree_C)),
         (''weather_type'', PStr (weather_type_cap @ '': '' @ py_str env weather_description)),
         (''current_time'', PStr current_time),
         (''daylight'', PStr (''Sunrise-'' @ sunrise_time @ '', Sunset-'' @ sunset_time)),
         (''humidity'', PStr (py_str env humidity @ ''%'')),
         (''pressure'', PStr (py_str env pressure @ '' hPa'')),
         (''wind'', PStr (py_str env wind_speed @ '' m/s, direction ''
             @ py_str env wind_direction @ degree)),
         (''visibility'', PStr (py_str env visibility @ '' km''))]
        ))))))))))))))))))))))))"

subsection \<open>\<open>process_forecast_data\<close>: the current conditions\<close>

record current_block =
  cb_temp :: pyval
  cb_feels_like :: pyval
  cb_humidity :: pyval
  cb_pressure :: pyval
  cb_wind_speed :: pyval
  cb_wind_direction :: pyval
  cb_visibility :: pyval
  cb_uvi :: pyval
  cb_clouds :: pyval
  cb_weather_type :: pyval
  cb_weather_description :: pyval
  cb_sunrise :: string
  cb_sunset :: string

text \<open>\<open>datetime.fromtimestamp(current.get(key, 0)).strftime('%H:%M:%S') if key in current
  else 'Unknown'\<close>.\<close>

definition sun_time :: "platform \<Rightarrow> pyval \<Rightarrow> string \<Rightarrow> pyerr + string" where
  "sun_time env current k =
     bind_err (py_in k current) (\<lambda>present.
     if present
     then bind_err (py_get current k (PInt 0)) (\<lambda>ts.
          bind_err (fromtimestamp env ts) (\<lambda>d. Inr (strftime_HMS d)))
     else Inr ''Unknown'')"

definition current_fields :: "platform \<Rightarrow> pyval \<Rightarrow> pyerr + current_block" where
  "current_fields env current =
     bind_err (py_get current ''temp'' (PStr ''Unknown'')) (\<lambda>current_temp.
     bind_err (py_get current ''feels_like'' (PStr ''Unknown'')) (\<lambda>feels_like.
     bind_err (py_get current ''humidity'' (PStr ''Unknown'')) (\<lambda>humidity.
     bind_err (py_get current ''pressure'' (PStr ''Unknown'')) (\<lambda>pressure.
     bind_err (py_get current ''wind_speed'' (PStr ''Unknown'')) (\<lambda>wind_speed.
     bind_err (py_get current ''wind_deg'' (PStr ''Unknown'')) (\<lambda>wind_direction.
     bind_err (bind_err (py_in ''visibility'' current) (\<lambda>present.
                 if present
                 then bind_err (py_get current ''visibility'' (PStr ''Unknown'')) py_div_1000
                 else Inr (PStr ''Unknown''))) (\<lambda>visibility.
     bind_err (py_get current ''uvi'' (PStr ''Unknown'')) (\<lambda>uvi.
     bind_err (py_get current ''clouds'' (PStr ''Unknown'')) (\<lambda>clouds.
     bind_err (weather_field current ''main'' ''unknown'') (\<lambda>weather_type.
     bind_err (weather_field current ''description'' ''unknown'') (\<lambda>weather_description.
     bind_err (sun_time env current ''sunrise'') (\<lambda>sunrise.
     bind_err (sun_time env current ''sunset'') (\<lambda>sunset.
     Inr \<lparr>cb_temp = current_temp, cb_feels_like = feels_like, cb_humidity = humidity,
          cb_pressure = pressure, cb_wind_speed = wind_speed,
          cb_wind_direction = wind_direction, cb_visibility = visibility, cb_uvi = uvi,
          cb_clouds = clouds, cb_weather_type = weather_type,
          cb_weather_description = weather_description, cb_sunrise = sunrise,
          cb_sunset = sunset\<rparr>)))))))))))))"

subsection \<open>\<open>process_forecast_data\<close>: daily minimum and maximum\<close>

text \<open>
  \<open>temp_min\<close> starts at 100 and \<open>temp_max\<close> at -100; the first daily entry replaces them
  where it has \<open>temp.min\<close> and \<open>temp.max\<close>.
\<close>

definition daily_min_max :: "pyval \<Rightarrow> pyerr + pyval \<times> pyval" where
  "daily_min_max daily =
     (if \<not> truthy daily then Inr (PInt 100, PInt (- 100)) else
      bind_err (py_len daily) (\<lambda>n.
      if \<not> 0 < n then Inr (PInt 100, PInt (- 100)) else
      bind_err (py_first daily) (\<lambda>today.
      bind_err (nested_get today ''temp'' ''min'' (PInt 100)) (\<lambda>temp_min.
      bind_err (nested_get today ''temp'' ''max'' (PInt (- 100))) (\<lambda>temp_max.
      Inr (temp_min, temp_max))))))"

subsection \<open>\<open>process_forecast_data\<close>: the loop over the hourly samples\<close>

definition time_slots :: "(string \<times> nat) list" where
  "time_slots =
     [(''morning_6'', 6), (''morning_8'', 8), (''morning_10'', 10),
      (''afternoon_12'', 12), (''afternoon_14'', 14), (''afternoon_16'', 16),
      (''evening_18'', 18), (''evening_20'', 20), (''evening_22'', 22)]"

text \<open>The body of the \<open>if hour_of_day == slot_hour\<close> branch.\<close>

definition slot_entry :: "platform \<Rightarrow> pyval \<Rightarrow> string \<Rightarrow> summary \<Rightarrow> pyerr + summary" where
  "slot_entry env hour slot_name hf =
     bind_err (py_get hour ''temp'' (PStr ''Unknown'')) (\<lambda>hour_temp.
     bind_err (bind_err (py_get hour ''pop'' (PInt 0)) py_mul_100) (\<lambda>hour_pop.
     bind_err (weather_field hour ''main'' ''Unknown'') (\<lambda>hour_weather.
     bind_err (format_0f hour_pop) (\<lambda>precip_text.
     Inr (hf(slot_name @ ''_temp'' \<mapsto> PStr (py_str env hour_temp @ degree_C),
             slot_name @ ''_precip'' \<mapsto> PStr (precip_text @ ''%''),
             slot_name @ ''_weather'' \<mapsto> hour_weather))))))"

text \<open>The inner loop \<open>for slot_name, slot_hour in time_slots.items()\<close>.\<close>

fun store_slots ::
  "platform \<Rightarrow> pyval \<Rightarrow> nat \<Rightarrow> (string \<times> nat) list \<Rightarrow> summary \<Rightarrow> pyerr + summary" where
  "store_slots env hour hour_of_day [] hf = Inr hf"
| "store_slots env hour hour_of_day ((slot_name, slot_hour) # slots) hf =
     (if hour_of_day = slot_hour
      then bind_err (slot_entry env hour slot_name hf)
             (\<lambda>hf'. store_slots env hour hour_of_day slots hf')
      else store_slots env hour hour_of_day slots hf)"

text \<open>
  The variables the outer loop updates. \<open>max_precip_hour\<close> is assigned beside
  \<open>max_precip_time\<close> and never read, so it is left out.
\<close>

record scan_state =
  hourly_forecasts :: summary
  max_precip :: pyval
  max_precip_time :: string

definition scan_start :: scan_state where
  "scan_start = \<lparr>hourly_forecasts = Map.empty, max_precip = PInt 0, max_precip_time = ''None''\<rparr>"

definition scan_hour :: "platform \<Rightarrow> scan_state \<Rightarrow> pyval \<Rightarrow> pyerr + scan_state" where
  "scan_hour env st hour =
     bind_err (py_get hour ''dt'' (PInt 0)) (\<lambda>dt.
     bind_err (fromtimestamp env dt) (\<lambda>hour_datetime.
     bind_err (store_slots env hour (dt_hour hour_datetime) time_slots (hourly_forecasts st))
       (\<lambda>hf.
     bind_err (bind_err (py_get hour ''pop'' (PInt 0)) py_mul_100) (\<lambda>pop.
     bind_err (py_gt pop (max_precip st)) (\<lambda>higher.
     Inr (if higher
          then \<lparr>hourly_forecasts = hf, max_precip = pop,
                max_precip_time = strftime_HM hour_datetime\<rparr>
          else st\<lparr>hourly_forecasts := hf\<rparr>))))))"

fun scan_hours :: "platform \<Rightarrow> scan_state \<Rightarrow> pyval list \<Rightarrow> pyerr + scan_state" where
  "scan_hours env st [] = Inr st"
| "scan_hours env st (hour # hours) =
     bind_err (scan_hour env st hour) (\<lambda>st'. scan_hours env st' hours)"

subsection \<open>\<open>process_forecast_data\<close>: the main weather type\<close>

text \<open>
  \<open>weather_counts\<close> is a Python dict, which keeps its keys in the order of their first
  insertion: an association list, a new key going to the end. Two keys are the same key
  when Python's \<open>==\<close> holds, which compares numbers by value (\<open>True == 1 == 1.0\<close>) and
  everything else that can be a key by its content. A list or a dict cannot be a key.
\<close>

definition key_eq :: "pyval \<Rightarrow> pyval \<Rightarrow> bool" where
  "key_eq a b =
     (case (num_val a, num_val b) of
        (Some x, Some y) \<Rightarrow> x = y
      | (None, None) \<Rightarrow> a = b
      | _ \<Rightarrow> False)"

fun hashable :: "pyval \<Rightarrow> bool" where
  "hashable (PList xs) = False"
| "hashable (PDict kvs) = False"
| "hashable _ = True"

text \<open>\<open>weather_counts[w_type] = weather_counts.get(w_type, 0) + 1\<close>.\<close>

fun count_up :: "pyval \<Rightarrow> (pyval \<times> nat) list \<Rightarrow> (pyval \<times> nat) list" where
  "count_up w [] = [(w, 1)]"
| "count_up w ((k, n) # rest) =
     (if key_eq w k then (k, n + 1) # rest else (k, n) # count_up w rest)"

text \<open>The loop \<open>for hour in hourly[:24]\<close>, on the elements of the slice.\<close>

fun count_types :: "(pyval \<times> nat) list \<Rightarrow> pyval list \<Rightarrow> pyerr + (pyval \<times> nat) list" where
  "count_types weather_counts [] = Inr weather_counts"
| "count_types weather_counts (hour # hours) =
     bind_err (weather_field hour ''main'' ''Unknown'') (\<lambda>w_type.
     if hashable w_type then count_types (count_up w_type weather_counts) hours
     else Inl TypeError)"

text \<open>
  \<open>max(items, key=lambda x: x[1])\<close> on a non-empty sequence: the first item whose count
  no other item exceeds. \<open>max_item best items\<close> goes on from the best item so far.
\<close>

fun max_item :: "(pyval \<times> nat) \<Rightarrow> (pyval \<times> nat) list \<Rightarrow> (pyval \<times> nat)" where
  "max_item best [] = best"
| "max_item best (x # xs) = max_item (if snd best < snd x then x else best) xs"

definition main_type :: "(pyval \<times> nat) list \<Rightarrow> pyval" where
  "main_type weather_counts =
     (case weather_counts of
        [] \<Rightarrow> PStr ''Unknown''
      | x # xs \<Rightarrow> fst (max_item x xs))"

subsection \<open>\<open>process_forecast_data\<close>\<close>

definition forecast_info ::
  "platform \<Rightarrow> current_block \<Rightarrow> pyval \<Rightarrow> pyval \<Rightarrow> scan_state \<Rightarrow> pyval \<Rightarrow> pyerr + summary" where
  "forecast_info env cb temp_min temp_max scan weather_main_type =
     bind_err (py_capitalize (cb_weather_type cb)) (\<lambda>weather_type_cap.
     bind_err (format_0f (max_precip scan)) (\<lambda>max_precip_text.
     Inr (map_of
       [(''weather_type'',
           PStr (weather_type_cap @ '': '' @ py_str env (cb_weather_description cb))),
        (''weather_temperature'',
           PStr (py_str env (cb_temp cb) @ degree_C @ '' (feels like ''
             @ py_str env (cb_feels_like cb) @ degree_C @ '')'')),
        (''weather_temperature_range'',
           PStr (''Min: '' @ py_str env temp_min @ degree_C @ '', Max: ''
             @ py_str env temp_max @ degree_C)),
        (''weather_humidity'', PStr (py_str env (cb_humidity cb) @ ''%'')),
        (''weather_pressure'', PStr (py_str env (cb_pressure cb) @ '' hPa'')),
        (''weather_wind'',
           PStr (py_str env (cb_wind_speed cb) @ '' m/s, direction ''
             @ py_str env (cb_wind_direction cb) @ degree)),
        (''weather_visibility'', PStr (py_str env (cb_visibility cb) @ '' km'')),
        (''weather_uvi'', PStr (py_str env (cb_uvi cb))),
        (''weather_clouds'', PStr (py_str env (cb_clouds cb) @ ''%'')),
        (''weather_daylight'',
           PStr (''Sunrise-'' @ cb_sunrise cb @ '', Sunset-'' @ cb_sunset cb)),
        (''temp_min'', PStr (py_str env temp_min)),
        (''temp_max'', PStr (py_str env temp_max)),
        (''max_precip'', PStr max_precip_text),
        (''max_precip_time'', PStr (max_precip_time scan)),
        (''weather_main_type'', weather_main_type)])))"

text \<open>
  The whole function. An empty payload gives the empty dict; otherwise the dict of the
  formatted fields, updated with the slot entries of the hourly loop.
\<close>

definition process_forecast_data :: "platform \<Rightarrow> pyval \<Rightarrow> pyerr + summary" where
  "process_forecast_data env forecast_data =
     (if \<not> truthy forecast_data then Inr Map.empty else
      bind_err (py_get forecast_data ''current'' (PDict [])) (\<lambda>current.
      bind_err (py_get forecast_data ''hourly'' (PList [])) (\<lambda>hourly.
      bind_err (py_get forecast_data ''daily'' (PList [])) (\<lambda>daily.
      bind_err (current_fields env current) (\<lambda>cb.
      bind_err (daily_min_max daily) (\<lambda>(temp_min, temp_max).
      bind_err (bind_err (py_iter hourly) (scan_hours env scan_start)) (\<lambda>scan.
      bind_err (bind_err (py_slice_to 24 hourly) (count_types [])) (\<lambda>weather_counts.
      bind_err (forecast_info env cb temp_min temp_max scan (main_type weather_counts))
        (\<lambda>info.
      Inr (info ++ hourly_forecasts scan))))))))))"

section \<open>One platform, for the concrete evaluations\<close>

text \<open>
  The theorems below hold for every platform. Where a statement is evaluated on a
  concrete payload, the platform is this one: the local time zone is UTC, a float prints
  as its decimal expansion, and \<open>float\<close> reads plain decimal literals.
\<close>

text \<open>The civil date of a day number (days since 1970-01-01), in the Gregorian calendar.\<close>

definition civil_from_days :: "int \<Rightarrow> int \<times> nat \<times> nat" where
  "civil_from_days z0 =
     (let z = z0 + 719468;
          era = z div 146097;
          doe = z mod 146097;
          yoe = (doe - doe div 1460 + doe div 36524 - doe div 146096) div 365;
          doy = doe - (365 * yoe + yoe div 4 - yoe div 100);
          mp = (5 * doy + 2) div 153;
          d = doy - (153 * mp + 2) div 5 + 1;
          m = (if mp < 10 then mp + 3 else mp - 9);
          y = yoe + era * 400 + (if m \<le> 2 then 1 else 0)
      in (y, nat m, nat d))"

text \<open>
  \<open>datetime.fromtimestamp\<close> under UTC: a number of seconds, rounded to the microsecond;
  a value that is no number is a \<open>TypeError\<close>, a year outside 1..9999 a \<open>ValueError\<close>.
\<close>

definition utc_fromtimestamp :: "pyval \<Rightarrow> pyerr + datetime" where
  "utc_fromtimestamp v =
     (case num_val v of
        None \<Rightarrow> Inl TypeError
      | Some r \<Rightarrow>
          (let secs = round_half_even (r * 1000000) div 1000000;
               tod = secs mod 86400;
               (y, m, d) = civil_from_days (secs div 86400)
           in if y < 1 \<or> 9999 < y then Inl ValueError
              else Inr \<lparr>dt_year = nat y, dt_month = m, dt_day = d,
                        dt_hour = nat (tod div 3600), dt_minute = nat (tod mod 3600 div 60),
                        dt_second = nat (tod mod 60)\<rparr>))"

text \<open>The digits of a fraction \<open>0 \<le> r < 1\<close>, at most \<open>n\<close> of them.\<close>

fun frac_digits :: "nat \<Rightarrow> rat \<Rightarrow> string" where
  "frac_digits 0 r = []"
| "frac_digits (Suc n) r =
     (if r = 0 then []
      else digit_char (nat \<lfloor>r * 10\<rfloor>) # frac_digits n (r * 10 - of_int \<lfloor>r * 10\<rfloor>))"

definition decimal_text :: "rat \<Rightarrow> string" where
  "decimal_text r =
     (let a = \<bar>r\<bar>; whole = \<lfloor>a\<rfloor>; fr = a - of_int whole in
      (if r < 0 then ''-'' else []) @ nat_str (nat whole) @ ''.''
        @ (if fr = 0 then ''0'' else frac_digits 17 fr))"

text \<open>Floats print as decimals; a list or a dict is not printed in any evaluation below.\<close>

fun utc_repr_other :: "pyval \<Rightarrow> string" where
  "utc_repr_other (PFloat r) = decimal_text r"
| "utc_repr_other (PList xs) = ''[...]''"
| "utc_repr_other (PDict kvs) = ''{...}''"
| "utc_repr_other v = []"

text \<open>A plain decimal literal: an optional sign, digits, an optional fraction.\<close>

definition is_digit :: "char \<Rightarrow> bool" where
  "is_digit c = (48 \<le> (of_char c :: nat) \<and> (of_char c :: nat) \<le> 57)"

definition digits_val :: "string \<Rightarrow> nat" where
  "digits_val s = foldl (\<lambda>acc c. acc * 10 + ((of_char c :: nat) - 48)) 0 s"

definition unsigned_decimal :: "string \<Rightarrow> rat option" where
  "unsigned_decimal s =
     (let whole = takeWhile is_digit s; rest = dropWhile is_digit s in
      if whole = [] then None
      else if rest = [] then Some (of_nat (digits_val whole))
      else if hd rest = CHR ''.'' \<and> tl rest \<noteq> [] \<and> list_all is_digit (tl rest)
      then Some (of_nat (digits_val whole)
                 + of_nat (digits_val (tl rest)) / of_nat (10 ^ length (tl rest)))
      else None)"

fun decimal_literal :: "string \<Rightarrow> rat option" where
  "decimal_literal [] = None"
| "decimal_literal (c # cs) =
     (if c = CHR ''-'' then map_option uminus (unsigned_decimal cs)
      else unsigned_decimal (c # cs))"

text \<open>The text of the exceptions: a collaborator's own text, the class name otherwise.\<close>

fun class_text :: "pyerr \<Rightarrow> string" where
  "class_text (Raised msg) = msg"
| "class_text KeyError = ''KeyError''"
| "class_text IndexError = ''list index out of range''"
| "class_text TypeError = ''TypeError''"
| "class_text ValueError = ''ValueError''"
| "class_text AttributeError = ''AttributeError''"

definition utc_platform :: platform where
  "utc_platform =
     \<lparr>fromtimestamp = utc_fromtimestamp, repr_other = utc_repr_other,
      float_of_str = decimal_literal, builtin_text = class_text\<rparr>"

section \<open>Facts about the aggregation\<close>

text \<open>Reading one field of a result; \<open>None\<close> where the function raised.\<close>

definition summary_field :: "pyerr + summary \<Rightarrow> string \<Rightarrow> pyval option" where
  "summary_field r k = (case r of Inl e \<Rightarrow> None | Inr s \<Rightarrow> s k)"

text \<open>A key that no slot entry uses.\<close>

definition slot_free :: "(string \<times> nat) list \<Rightarrow> string \<Rightarrow> bool" where
  "slot_free slots k =
     list_all (\<lambda>slot. k \<noteq> fst slot @ ''_temp'' \<and> k \<noteq> fst slot @ ''_precip''
                      \<and> k \<noteq> fst slot @ ''_weather'') slots"

lemma slot_entry_other_key:
  assumes "slot_entry env hour slot_name hf = Inr hf'"
    and "k \<noteq> slot_name @ ''_temp''" and "k \<noteq> slot_name @ ''_precip''"
    and "k \<noteq> slot_name @ ''_weather''"
  shows "hf' k = hf k"
  using assms by (auto simp: slot_entry_def bind_err_eq_Inr)

lemma store_slots_other_key:
  "store_slots env hour hod slots hf = Inr hf' \<Longrightarrow> slot_free slots k \<Longrightarrow> hf' k = hf k"
proof (induction slots arbitrary: hf)
  case Nil
  then show ?case by simp
next
  case (Cons slot slots)
  obtain slot_name slot_hour where slot: "slot = (slot_name, slot_hour)"
    by (cases slot)
  from Cons.prems(2) have free: "slot_free slots k"
    and k: "k \<noteq> slot_name @ ''_temp''" "k \<noteq> slot_name @ ''_precip''"
      "k \<noteq> slot_name @ ''_weather''"
    by (simp_all add: slot_free_def slot)
  show ?case
  proof (cases "hod = slot_hour")
    case True
    with Cons.prems(1) slot obtain hf1 where
      e: "slot_entry env hour slot_name hf = Inr hf1"
      and r: "store_slots env hour hod slots hf1 = Inr hf'"
      by (auto simp: bind_err_eq_Inr)
    from r free have "hf' k = hf1 k" by (rule Cons.IH)
    also from e k have "hf1 k = hf k" by (rule slot_entry_other_key)
    finally show ?thesis .
  next
    case False
    with Cons.prems(1) slot have "store_slots env hour hod slots hf = Inr hf'"
      by simp
    then show ?thesis using free by (rule Cons.IH)
  qed
qed

lemma scan_hour_other_key:
  assumes "scan_hour env st hour = Inr st'" and "slot_free time_slots k"
  shows "hourly_forecasts st' k = hourly_forecasts st k"
  using assms
  by (auto simp: scan_hour_def bind_err_eq_Inr split: if_splits dest: store_slots_other_key)

lemma scan_hours_other_key:
  "scan_hours env st hours = Inr st' \<Longrightarrow> slot_free time_slots k \<Longrightarrow>
   hourly_forecasts st' k = hourly_forecasts st k"
proof (induction hours arbitrary: st)
  case Nil
  then show ?case by simp
next
  case (Cons hour hours)
  from Cons.prems(1) obtain st1 where
    one: "scan_hour env st hour = Inr st1" and rest: "scan_hours env st1 hours = Inr st'"
    by (auto simp: bind_err_eq_Inr)
  from rest Cons.prems(2) have "hourly_forecasts st' k = hourly_forecasts st1 k"
    by (rule Cons.IH)
  also from one Cons.prems(2) have "\<dots> = hourly_forecasts st k"
    by (rule scan_hour_other_key)
  finally show ?case .
qed

text \<open>What a successful call on a non-empty payload went through.\<close>

lemma process_forecast_data_Inr:
  assumes "process_forecast_data env fd = Inr s" and "truthy fd"
  obtains current hourly daily cb temp_min temp_max hours scan slice weather_counts info
  where "py_get fd ''current'' (PDict []) = Inr current"
    and "py_get fd ''hourly'' (PList []) = Inr hourly"
    and "py_get fd ''daily'' (PList []) = Inr daily"
    and "current_fields env current = Inr cb"
    and "daily_min_max daily = Inr (temp_min, temp_max)"
    and "py_iter hourly = Inr hours"
    and "scan_hours env scan_start hours = Inr scan"
    and "py_slice_to 24 hourly = Inr slice"
    and "count_types [] slice = Inr weather_counts"
    and "forecast_info env cb temp_min temp_max scan (main_type weather_counts) = Inr info"
    and "s = info ++ hourly_forecasts scan"
  using assms
  by (auto simp: process_forecast_data_def bind_err_eq_Inr split: prod.splits)

lemma forecast_info_fields:
  assumes "forecast_info env cb temp_min temp_max scan wmt = Inr info"
  shows "info ''temp_min'' = Some (PStr (py_str env temp_min))"
    and "info ''temp_max'' = Some (PStr (py_str env temp_max))"
    and "info ''max_precip_time'' = Some (PStr (max_precip_time scan))"
    and "info ''weather_main_type'' = Some wmt"
    and "\<exists>t. format_0f (max_precip scan) = Inr t \<and> info ''max_precip'' = Some (PStr t)"
  using assms by (auto simp: forecast_info_def bind_err_eq_Inr)

lemma slot_free_summary_keys:
  "slot_free time_slots ''temp_min''" "slot_free time_slots ''temp_max''"
  "slot_free time_slots ''max_precip''" "slot_free time_slots ''max_precip_time''"
  "slot_free time_slots ''weather_main_type''"
  by (simp_all add: slot_free_def time_slots_def)

text \<open>The fields of the summary that the hourly slots never overwrite.\<close>

lemma process_forecast_data_field:
  assumes "process_forecast_data env fd = Inr s" and "truthy fd" and "slot_free time_slots k"
  obtains cb temp_min temp_max hours scan slice weather_counts info hourly daily
  where "py_get fd ''hourly'' (PList []) = Inr hourly"
    and "py_get fd ''daily'' (PList []) = Inr daily"
    and "daily_min_max daily = Inr (temp_min, temp_max)"
    and "py_iter hourly = Inr hours"
    and "scan_hours env scan_start hours = Inr scan"
    and "py_slice_to 24 hourly = Inr slice"
    and "count_types [] slice = Inr weather_counts"
    and "forecast_info env cb temp_min temp_max scan (main_type weather_counts) = Inr info"
    and "s k = info k"
proof -
  from assms(1,2) obtain hourly daily cb temp_min temp_max hours scan slice
    weather_counts info
    where h: "py_get fd ''hourly'' (PList []) = Inr hourly"
      "py_get fd ''daily'' (PList []) = Inr daily"
      "daily_min_max daily = Inr (temp_min, temp_max)"
      "py_iter hourly = Inr hours"
      "scan_hours env scan_start hours = Inr scan"
      "py_slice_to 24 hourly = Inr slice"
      "count_types [] slice = Inr weather_counts"
      "forecast_info env cb temp_min temp_max scan (main_type weather_counts) = Inr info"
      and s: "s = info ++ hourly_forecasts scan"
    by (rule process_forecast_data_Inr) blast
  from h(5) assms(3) have "hourly_forecasts scan k = hourly_forecasts scan_start k"
    by (rule scan_hours_other_key)
  then have "hourly_forecasts scan k = None"
    by (simp add: scan_start_def)
  with s have "s k = info k"
    by (simp add: map_add_def)
  with h show ?thesis
    using that by blast
qed

subsection \<open>The tally of weather types\<close>

text \<open>
  How often a category occurs in a list of categories, and the position of its first
  occurrence, both up to the equality of dict keys.
\<close>

definition occurrences :: "pyval \<Rightarrow> pyval list \<Rightarrow> nat" where
  "occurrences c cats = length (filter (key_eq c) cats)"

definition first_pos :: "pyval \<Rightarrow> pyval list \<Rightarrow> nat" where
  "first_pos c cats = length (takeWhile (\<lambda>x. \<not> key_eq c x) cats)"

text \<open>The category of one hourly sample, where the sample yields one.\<close>

definition hour_type :: "pyval \<Rightarrow> pyval" where
  "hour_type hour =
     (case weather_field hour ''main'' ''Unknown'' of Inr c \<Rightarrow> c | Inl e \<Rightarrow> PNone)"

lemma key_eq_refl [simp]: "key_eq a a"
  by (simp add: key_eq_def split: option.splits)

lemma key_eq_sym: "key_eq a b \<Longrightarrow> key_eq b a"
  by (auto simp: key_eq_def split: option.splits)

lemma key_eq_trans: "key_eq a b \<Longrightarrow> key_eq b c \<Longrightarrow> key_eq a c"
  by (auto simp: key_eq_def split: option.splits)

lemma key_eq_left: "key_eq a b \<Longrightarrow> key_eq a c = key_eq b c"
  using key_eq_sym key_eq_trans by blast

lemma key_eq_commute: "key_eq a b = key_eq b a"
  using key_eq_sym by blast

lemma occurrences_cong: "key_eq a b \<Longrightarrow> occurrences a cats = occurrences b cats"
  by (simp add: occurrences_def key_eq_left [of a b] cong: filter_cong)

lemma first_pos_cong: "key_eq a b \<Longrightarrow> first_pos a cats = first_pos b cats"
  by (simp add: first_pos_def key_eq_left [of a b] cong: takeWhile_cong)

lemma occurrences_snoc:
  "occurrences k (cats @ [c]) = occurrences k cats + (if key_eq k c then 1 else 0)"
  by (simp add: occurrences_def)

lemma first_pos_less: "(\<exists>x \<in> set cats. key_eq k x) \<Longrightarrow> first_pos k cats < length cats"
  unfolding first_pos_def by (induction cats) auto

lemma first_pos_snoc_old:
  "(\<exists>x \<in> set cats. key_eq k x) \<Longrightarrow> first_pos k (cats @ [c]) = first_pos k cats"
  unfolding first_pos_def by (induction cats) auto

lemma first_pos_snoc_new:
  "(\<forall>x \<in> set cats. \<not> key_eq c x) \<Longrightarrow> first_pos c (cats @ [c]) = length cats"
  unfolding first_pos_def by (induction cats) auto

text \<open>The two ways \<open>count_up\<close> can go: a new key at the end, or one count raised.\<close>

lemma count_up_cases:
  "(\<forall>p \<in> set wc. \<not> key_eq c (fst p)) \<and> count_up c wc = wc @ [(c, 1)]
   \<or> (\<exists>pre k n post. wc = pre @ (k, n) # post \<and> key_eq c k
        \<and> (\<forall>p \<in> set pre. \<not> key_eq c (fst p))
        \<and> count_up c wc = pre @ (k, n + 1) # post)"
proof (induction wc)
  case Nil
  then show ?case by simp
next
  case (Cons p wc)
  obtain k n where p: "p = (k, n)" by (cases p)
  show ?case
  proof (cases "key_eq c k")
    case True
    then have "p # wc = [] @ (k, n) # wc \<and> key_eq c k
        \<and> (\<forall>q \<in> set []. \<not> key_eq c (fst q))
        \<and> count_up c (p # wc) = [] @ (k, n + 1) # wc"
      by (simp add: p)
    then show ?thesis by blast
  next
    case False
    from Cons.IH show ?thesis
    proof
      assume "(\<forall>q \<in> set wc. \<not> key_eq c (fst q)) \<and> count_up c wc = wc @ [(c, 1)]"
      with False show ?thesis by (simp add: p)
    next
      assume "\<exists>pre k' n' post. wc = pre @ (k', n') # post \<and> key_eq c k'
        \<and> (\<forall>q \<in> set pre. \<not> key_eq c (fst q))
        \<and> count_up c wc = pre @ (k', n' + 1) # post"
      then obtain pre k' n' post where
        h: "wc = pre @ (k', n') # post" "key_eq c k'"
          "\<forall>q \<in> set pre. \<not> key_eq c (fst q)"
          "count_up c wc = pre @ (k', n' + 1) # post"
        by blast
      with False have "p # wc = (p # pre) @ (k', n') # post \<and> key_eq c k'
        \<and> (\<forall>q \<in> set (p # pre). \<not> key_eq c (fst q))
        \<and> count_up c (p # wc) = (p # pre) @ (k', n' + 1) # post"
        by (simp add: p)
      then show ?thesis by blast
    qed
  qed
qed

text \<open>
  What the tally holds after the categories \<open>cats\<close>: every key is one of the categories
  and carries the number of its occurrences, the keys stand in the order of their first
  occurrence, and every category has its key.
\<close>

definition tally_of :: "(pyval \<times> nat) list \<Rightarrow> pyval list \<Rightarrow> bool" where
  "tally_of wc cats \<longleftrightarrow>
     (\<forall>p \<in> set wc. fst p \<in> set cats \<and> snd p = occurrences (fst p) cats)
     \<and> sorted_wrt (\<lambda>a b. first_pos (fst a) cats < first_pos (fst b) cats) wc
     \<and> (\<forall>c \<in> set cats. \<exists>p \<in> set wc. key_eq c (fst p))"

lemma tally_of_Nil: "tally_of [] []"
  by (simp add: tally_of_def)

lemma tally_of_count_up:
  assumes "tally_of wc cats"
  shows "tally_of (count_up c wc) (cats @ [c])"
proof -
  let ?lt = "\<lambda>cs (a :: pyval \<times> nat) (b :: pyval \<times> nat).
               first_pos (fst a) cs < first_pos (fst b) cs"
  from assms have
    mem: "\<And>p. p \<in> set wc \<Longrightarrow> fst p \<in> set cats"
    and cnt: "\<And>p. p \<in> set wc \<Longrightarrow> snd p = occurrences (fst p) cats"
    and srt: "sorted_wrt (?lt cats) wc"
    and cov: "\<And>x. x \<in> set cats \<Longrightarrow> \<exists>p \<in> set wc. key_eq x (fst p)"
    by (auto simp: tally_of_def)
  have old: "first_pos (fst p) (cats @ [c]) = first_pos (fst p) cats" if "p \<in> set wc" for p
    using mem [OF that] by (intro first_pos_snoc_old) (auto intro: key_eq_refl)
  have srt': "sorted_wrt (?lt (cats @ [c])) wc"
    using srt old by (auto simp: sorted_wrt_iff_nth_less)
  from count_up_cases [of wc c] show ?thesis
  proof
    assume new: "(\<forall>p \<in> set wc. \<not> key_eq c (fst p)) \<and> count_up c wc = wc @ [(c, 1)]"
    have none: "\<forall>x \<in> set cats. \<not> key_eq c x"
    proof
      fix x assume "x \<in> set cats"
      then obtain p where "p \<in> set wc" "key_eq x (fst p)" using cov by blast
      with new show "\<not> key_eq c x" using key_eq_trans by blast
    qed
    then have zero: "occurrences c cats = 0"
      by (simp add: occurrences_def)
    have pos: "first_pos c (cats @ [c]) = length cats"
      using none by (rule first_pos_snoc_new)
    have below: "first_pos (fst p) (cats @ [c]) < length cats" if "p \<in> set wc" for p
      using old [OF that] mem [OF that] first_pos_less [of cats "fst p"]
      by (auto intro: key_eq_refl)
    have 1: "\<forall>p \<in> set (wc @ [(c, 1)]).
               fst p \<in> set (cats @ [c]) \<and> snd p = occurrences (fst p) (cats @ [c])"
    proof
      fix p assume "p \<in> set (wc @ [(c, 1)])"
      then consider "p \<in> set wc" | "p = (c, 1)" by auto
      then show "fst p \<in> set (cats @ [c]) \<and> snd p = occurrences (fst p) (cats @ [c])"
      proof cases
        case 1
        with new have "\<not> key_eq (fst p) c" using key_eq_sym by blast
        with 1 mem cnt show ?thesis by (simp add: occurrences_snoc)
      next
        case 2
        with zero show ?thesis by (simp add: occurrences_snoc)
      qed
    qed
    have 2: "sorted_wrt (?lt (cats @ [c])) (wc @ [(c, 1)])"
      using srt' below pos by (simp add: sorted_wrt_append)
    have 3: "\<forall>x \<in> set (cats @ [c]). \<exists>p \<in> set (wc @ [(c, 1)]). key_eq x (fst p)"
      using cov by auto
    from new 1 2 3 show ?thesis
      by (simp add: tally_of_def)
  next
    assume "\<exists>pre k n post. wc = pre @ (k, n) # post \<and> key_eq c k
        \<and> (\<forall>p \<in> set pre. \<not> key_eq c (fst p))
        \<and> count_up c wc = pre @ (k, n + 1) # post"
    then obtain pre k n post where
      wc: "wc = pre @ (k, n) # post" and ck: "key_eq c k"
      and pre: "\<forall>p \<in> set pre. \<not> key_eq c (fst p)"
      and up: "count_up c wc = pre @ (k, n + 1) # post"
      by blast
    have post: "\<not> key_eq c (fst p)" if "p \<in> set post" for p
    proof
      assume "key_eq c (fst p)"
      with ck have "key_eq k (fst p)" using key_eq_sym key_eq_trans by blast
      then have "first_pos k cats = first_pos (fst p) cats" by (rule first_pos_cong)
      moreover from srt wc that have "first_pos k cats < first_pos (fst p) cats"
        by (auto simp: sorted_wrt_append)
      ultimately show False by simp
    qed
    have other: "snd p = occurrences (fst p) (cats @ [c])"
      if "p \<in> set pre \<or> p \<in> set post" for p
    proof -
      from that pre post have "\<not> key_eq (fst p) c" using key_eq_sym by blast
      moreover from that wc have "p \<in> set wc" by auto
      ultimately show ?thesis using cnt by (simp add: occurrences_snoc)
    qed
    have this_one: "n + 1 = occurrences k (cats @ [c])"
      using cnt [of "(k, n)"] wc ck key_eq_sym by (simp add: occurrences_snoc)
    have 1: "\<forall>p \<in> set (pre @ (k, n + 1) # post).
               fst p \<in> set (cats @ [c]) \<and> snd p = occurrences (fst p) (cats @ [c])"
    proof
      fix p assume "p \<in> set (pre @ (k, n + 1) # post)"
      then consider "p \<in> set pre \<or> p \<in> set post" | "p = (k, n + 1)" by auto
      then show "fst p \<in> set (cats @ [c]) \<and> snd p = occurrences (fst p) (cats @ [c])"
      proof cases
        case 1
        with wc have "p \<in> set wc" by auto
        with 1 other mem show ?thesis by simp
      next
        case 2
        with this_one mem [of "(k, n)"] wc show ?thesis by simp
      qed
    qed
    have 2: "sorted_wrt (?lt (cats @ [c])) (pre @ (k, n + 1) # post)"
      using srt' unfolding wc by (simp add: sorted_wrt_append)
    have 3: "\<forall>x \<in> set (cats @ [c]). \<exists>p \<in> set (pre @ (k, n + 1) # post). key_eq x (fst p)"
    proof
      fix x assume "x \<in> set (cats @ [c])"
      then consider "x \<in> set cats" | "x = c" by auto
      then show "\<exists>p \<in> set (pre @ (k, n + 1) # post). key_eq x (fst p)"
      proof cases
        case 1
        then obtain p where "p \<in> set wc" "key_eq x (fst p)" using cov by blast
        then show ?thesis unfolding wc by auto
      next
        case 2
        with ck show ?thesis by auto
      qed
    qed
    from up 1 2 3 show ?thesis
      by (simp add: tally_of_def)
  qed
qed

lemma tally_of_fold: "tally_of (fold count_up cats []) cats"
proof (induction cats rule: rev_induct)
  case Nil
  then show ?case by (simp add: tally_of_Nil)
next
  case (snoc c cats)
  then show ?case by (simp add: tally_of_count_up)
qed

text \<open>The loop is the fold of \<open>count_up\<close> over the categories of the samples.\<close>

lemma count_types_fold:
  "count_types wc hours = Inr wc' \<Longrightarrow> wc' = fold count_up (map hour_type hours) wc"
proof (induction hours arbitrary: wc)
  case Nil
  then show ?case by simp
next
  case (Cons hour hours)
  from Cons.prems obtain w where
    w: "weather_field hour ''main'' ''Unknown'' = Inr w"
    and rest: "count_types (count_up w wc) hours = Inr wc'"
    by (auto simp: bind_err_eq_Inr split: if_splits)
  from w have "hour_type hour = w" by (simp add: hour_type_def)
  with Cons.IH [OF rest] show ?case by simp
qed

text \<open>\<open>max\<close> returns the first of the items with the highest count.\<close>

lemma max_item_split:
  assumes "\<forall>x \<in> set pre. snd x < snd best" and "\<forall>x \<in> set mid. snd x \<le> snd best"
  shows "\<exists>pre' post. pre @ best # mid @ xs = pre' @ max_item best xs # post
           \<and> (\<forall>x \<in> set pre'. snd x < snd (max_item best xs))
           \<and> (\<forall>x \<in> set post. snd x \<le> snd (max_item best xs))"
  using assms
proof (induction xs arbitrary: pre best mid)
  case Nil
  then show ?case by auto
next
  case (Cons x xs)
  show ?case
  proof (cases "snd best < snd x")
    case True
    have a: "\<forall>y \<in> set (pre @ best # mid). snd y < snd x"
      using True Cons.prems by fastforce
    have b: "\<forall>y \<in> set []. snd y \<le> snd x" by simp
    from Cons.IH [OF a b] True show ?thesis by simp
  next
    case False
    have b: "\<forall>y \<in> set (mid @ [x]). snd y \<le> snd best"
      using False Cons.prems by auto
    from Cons.IH [OF Cons.prems(1) b] False show ?thesis by simp
  qed
qed

lemma main_type_first_of_the_most_frequent:
  assumes "tally_of wc cats" and "cats \<noteq> []"
  shows "main_type wc \<in> set cats
    \<and> (\<forall>c \<in> set cats. occurrences c cats \<le> occurrences (main_type wc) cats
          \<and> (occurrences c cats = occurrences (main_type wc) cats
               \<longrightarrow> first_pos (main_type wc) cats \<le> first_pos c cats))"
proof -
  from assms have "wc \<noteq> []"
    by (auto simp: tally_of_def)
  then obtain x xs where wc: "wc = x # xs" by (cases wc) auto
  define r where "r = max_item x xs"
  have mt: "main_type wc = fst r" by (simp add: main_type_def wc r_def)
  from max_item_split [of "[]" x "[]" xs] obtain pre post where
    sp: "wc = pre @ r # post" and lo: "\<forall>y \<in> set pre. snd y < snd r"
    and hi: "\<forall>y \<in> set post. snd y \<le> snd r"
    unfolding wc r_def by auto
  from assms(1) have
    mem: "\<And>p. p \<in> set wc \<Longrightarrow> fst p \<in> set cats"
    and cnt: "\<And>p. p \<in> set wc \<Longrightarrow> snd p = occurrences (fst p) cats"
    and srt: "sorted_wrt (\<lambda>a b. first_pos (fst a) cats < first_pos (fst b) cats) wc"
    and cov: "\<And>c. c \<in> set cats \<Longrightarrow> \<exists>p \<in> set wc. key_eq c (fst p)"
    by (auto simp: tally_of_def)
  have r_in: "r \<in> set wc" by (simp add: sp)
  have "fst r \<in> set cats" using mem r_in by blast
  moreover have "occurrences c cats \<le> occurrences (fst r) cats
      \<and> (occurrences c cats = occurrences (fst r) cats
           \<longrightarrow> first_pos (fst r) cats \<le> first_pos c cats)"
    if "c \<in> set cats" for c
  proof -
    from cov [OF that] obtain p where p: "p \<in> set wc" and cp: "key_eq c (fst p)"
      by blast
    have oc: "occurrences c cats = snd p"
      using cnt [OF p] occurrences_cong [OF cp] by simp
    have fc: "first_pos c cats = first_pos (fst p) cats"
      using cp by (rule first_pos_cong)
    have orr: "occurrences (fst r) cats = snd r"
      using cnt [OF r_in] by simp
    from p sp consider "p \<in> set pre" | "p = r" | "p \<in> set post" by auto
    then show ?thesis
    proof cases
      case 1
      with lo oc orr show ?thesis by auto
    next
      case 2
      with oc orr fc show ?thesis by simp
    next
      case 3
      with srt sp have "first_pos (fst r) cats < first_pos (fst p) cats"
        by (auto simp: sorted_wrt_append)
      with 3 hi oc orr fc show ?thesis by auto
    qed
  qed
  ultimately show ?thesis
    unfolding mt by blast
qed

subsection \<open>The precipitation peak\<close>

text \<open>
  The precipitation probability of one hourly sample in percent, as the loop computes it
  (\<open>hour.get('pop', 0) * 100\<close>), where the sample has a number there.
\<close>

definition pop_percent :: "pyval \<Rightarrow> rat" where
  "pop_percent hour =
     (case py_get hour ''pop'' (PInt 0) of
        Inr v \<Rightarrow> (case num_val v of Some r \<Rightarrow> r * 100 | None \<Rightarrow> 0)
      | Inl e \<Rightarrow> 0)"




text \<open>The highest percentage among \<open>m\<close> and the samples.\<close>

definition peak_from :: "rat \<Rightarrow> pyval list \<Rightarrow> rat" where
  "peak_from m hours = fold (\<lambda>hour acc. max acc (pop_percent hour)) hours m"

lemma peak_from_simps [simp]:
  "peak_from m [] = m"
  "peak_from m (hour # hours) = peak_from (max m (pop_percent hour)) hours"
  by (simp_all add: peak_from_def)



lemma peak_from_all_below: "\<forall>hour \<in> set hours. pop_percent hour \<le> m \<Longrightarrow> peak_from m hours = m"
  by (induction hours arbitrary: m) (auto simp: max_def)



section \<open>Concrete payloads\<close>

text \<open>A current-conditions payload with every field of \<open>main\<close> and no \<open>visibility\<close>.\<close>

definition no_visibility_payload :: pyval where
  "no_visibility_payload =
     PDict [(''main'', PDict [(''temp'', PInt 20), (''temp_min'', PInt 18),
                              (''temp_max'', PInt 22), (''feels_like'', PInt 19),
                              (''humidity'', PInt 50), (''pressure'', PInt 1000)])]"

text \<open>A forecast payload whose \<open>current\<close> block has no \<open>visibility\<close> either.\<close>

definition no_visibility_forecast :: pyval where
  "no_visibility_forecast = PDict [(''current'', PDict [(''temp'', PInt 20)])]"

text \<open>A forecast payload with one daily entry, and one with an empty daily list.\<close>

definition one_day_forecast :: "(string \<times> pyval) list" where
  "one_day_forecast =
     [(''daily'', PList [PDict [(''temp'', PDict [(''min'', PInt 12), (''max'', PInt 25)])]])]"

definition no_day_forecast :: "(string \<times> pyval) list" where
  "no_day_forecast = [(''daily'', PList [])]"

lemma summary_field_SomeD:
  "summary_field r k = Some v \<Longrightarrow> \<exists>s. r = Inr s \<and> s k = Some v"
  by (cases r) (simp_all add: summary_field_def)

lemma summary_field_Inr [simp]: "summary_field (Inr s) k = s k"
  by (simp add: summary_field_def)

lemma int_str_100: "int_str 100 = ''100''" "int_str (- 100) = ''-100''"
  by code_simp+

text \<open>An hourly sample with a weather category, and one with a time and a probability.\<close>

definition sample_of_type :: "string \<Rightarrow> pyval" where
  "sample_of_type w = PDict [(''weather'', PList [PDict [(''main'', PStr w)]])]"


text \<open>
  The categories of the first 24 samples of a payload's hourly list, in their order.
\<close>

definition day_types :: "pyval list \<Rightarrow> pyval list" where
  "day_types hours = map hour_type (take 24 hours)"

text \<open>
  The tally scenario: Rain and Clouds alternate ten times, Rain first, then Clear four
  times; a 25th sample, outside the window, is Clouds again.
\<close>

definition scenario_hours :: "pyval list" where
  "scenario_hours =
     concat (replicate 10 [sample_of_type ''Rain'', sample_of_type ''Clouds''])
       @ replicate 4 (sample_of_type ''Clear'') @ [sample_of_type ''Clouds'']"

text \<open>A tie in which the category seen first is not the first to reach the highest count.\<close>

definition tie_hours :: "pyval list" where
  "tie_hours =
     [sample_of_type ''Rain'', sample_of_type ''Clouds'', sample_of_type ''Clouds'',
      sample_of_type ''Rain'']"

text \<open>
  The tie-break as the specification words it: the samples are scanned in order, each
  raising the count of its category, and the category that is first to reach the highest
  final count wins. \<open>seen\<close> are the categories scanned so far.
\<close>

definition highest_count :: "pyval list \<Rightarrow> nat" where
  "highest_count cats = fold (\<lambda>c acc. max acc (occurrences c cats)) cats 0"

fun first_to_reach :: "nat \<Rightarrow> pyval list \<Rightarrow> pyval list \<Rightarrow> pyval option" where
  "first_to_reach goal seen [] = None"
| "first_to_reach goal seen (c # cs) =
     (if occurrences c (c # seen) = goal then Some c else first_to_reach goal (c # seen) cs)"

definition spec_first_to_reach_max :: "pyval list \<Rightarrow> pyval option" where
  "spec_first_to_reach_max cats = first_to_reach (highest_count cats) [] cats"



section \<open>Activity suggestions\<close>

text \<open>
  The suggestion texts of \<open>generate_activity_suggestions\<close>, each a literal of the source
  with its list-item markup. The Chinese texts are given by their UTF-8 bytes.
\<close>


definition zh_clear :: "string list" where
  "zh_clear =
     [''<li>'' @ [CHR 0xE6, CHR 0x99, CHR 0xB4, CHR 0xE6, CHR 0x9C, CHR 0x97, CHR 0xE7,
       CHR 0x9A, CHR 0x84, CHR 0xE5, CHR 0xA4, CHR 0xA9, CHR 0xE6, CHR 0xB0, CHR 0x94,
       CHR 0xE9, CHR 0x9D, CHR 0x9E, CHR 0xE5, CHR 0xB8, CHR 0xB8, CHR 0xE9, CHR 0x80,
       CHR 0x82, CHR 0xE5, CHR 0x90, CHR 0x88, CHR 0xE6, CHR 0x88, CHR 0xB7, CHR 0xE5,
       CHR 0xA4, CHR 0x96, CHR 0xE6, CHR 0xB4, CHR 0xBB, CHR 0xE5, CHR 0x8A, CHR 0xA8,
       CHR 0xEF, CHR 0xBC, CHR 0x8C, CHR 0xE5, CHR 0xA6, CHR 0x82, CHR 0xE8, CHR 0xBF,
       CHR 0x9C, CHR 0xE8, CHR 0xB6, CHR 0xB3, CHR 0xE3, CHR 0x80, CHR 0x81, CHR 0xE9,
       CHR 0x87, CHR 0x8E, CHR 0xE9, CHR 0xA4, CHR 0x90, CHR 0xE6, CHR 0x88, CHR 0x96,
       CHR 0xE5, CHR 0x85, CHR 0xAC, CHR 0xE5, CHR 0x9B, CHR 0xAD, CHR 0xE6, CHR 0xBC,
       CHR 0xAB, CHR 0xE6, CHR 0xAD, CHR 0xA5, CHR 0xE3, CHR 0x80, CHR 0x82] @ ''</li>'',
      ''<li>'' @ [CHR 0xE5, CHR 0x9C, CHR 0xA8, CHR 0xE9, CHR 0x98, CHR 0xB3, CHR 0xE5,
       CHR 0x85, CHR 0x89, CHR 0xE4, CHR 0xB8, CHR 0x8B, CHR 0xE6, CHR 0xB4, CHR 0xBB,
       CHR 0xE5, CHR 0x8A, CHR 0xA8, CHR 0xE6, CHR 0x97, CHR 0xB6, CHR 0xEF, CHR 0xBC,
       CHR 0x8C, CHR 0xE8, CHR 0xAF, CHR 0xB7, CHR 0xE8, CHR 0xAE, CHR 0xB0, CHR 0xE5,
       CHR 0xBE, CHR 0x97, CHR 0xE6, CHR 0xB6, CHR 0x82, CHR 0xE6, CHR 0x8A, CHR 0xB9,
       CHR 0xE9, CHR 0x98, CHR 0xB2, CHR 0xE6, CHR 0x99, CHR 0x92, CHR 0xE9, CHR 0x9C,
       CHR 0x9C, CHR 0xE5, CHR 0xB9, CHR 0xB6, CHR 0xE5, CHR 0xA4, CHR 0x9A, CHR 0xE5,
       CHR 0x96, CHR 0x9D, CHR 0xE6, CHR 0xB0, CHR 0xB4, CHR 0xE3, CHR 0x80, CHR 0x82] @
       ''</li>'',
      ''<li>'' @ [CHR 0xE4, CHR 0xBB, CHR 0x8A, CHR 0xE5, CHR 0xA4, CHR 0xA9, CHR 0xE6,
       CHR 0x98, CHR 0xAF, CHR 0xE6, CHR 0x8B, CHR 0x8D, CHR 0xE6, CHR 0x91, CHR 0x84,
       CHR 0xE6, CHR 0x88, CHR 0xB7, CHR 0xE5, CHR 0xA4, CHR 0x96, CHR 0xE7, CHR 0x85,
       CHR 0xA7, CHR 0xE7, CHR 0x89, CHR 0x87, CHR 0xE7, CHR 0x9A, CHR 0x84, CHR 0xE7,
       CHR 0xBB, CHR 0x9D, CHR 0xE4, CHR 0xBD, CHR 0xB3, CHR 0xE6, CHR 0x97, CHR 0xB6,
       CHR 0xE6, CHR 0x9C, CHR 0xBA, CHR 0xEF, CHR 0xBC, CHR 0x81] @ ''</li>'']"

definition zh_cloud :: "string list" where
  "zh_cloud =
     [''<li>'' @ [CHR 0xE5, CHR 0xA4, CHR 0x9A, CHR 0xE4, CHR 0xBA, CHR 0x91, CHR 0xE5,
       CHR 0xA4, CHR 0xA9, CHR 0xE6, CHR 0xB0, CHR 0x94, CHR 0xE9, CHR 0x80, CHR 0x82,
       CHR 0xE5, CHR 0x90, CHR 0x88, CHR 0xE8, CHR 0xBD, CHR 0xBB, CHR 0xE5, CHR 0xBA,
       CHR 0xA6, CHR 0xE6, CHR 0x88, CHR 0xB7, CHR 0xE5, CHR 0xA4, CHR 0x96, CHR 0xE6,
       CHR 0xB4, CHR 0xBB, CHR 0xE5, CHR 0x8A, CHR 0xA8, CHR 0xEF, CHR 0xBC, CHR 0x8C,
       CHR 0xE5, CHR 0xA6, CHR 0x82, CHR 0xE6, CHR 0x95, CHR 0xA3, CHR 0xE6, CHR 0xAD,
       CHR 0xA5, CHR 0xE3, CHR 0x80, CHR 0x81, CHR 0xE6, CHR 0x85, CHR 0xA2, CHR 0xE8,
       CHR 0xB7, CHR 0x91, CHR 0xE6, CHR 0x88, CHR 0x96, CHR 0xE9, CHR 0xAA, CHR 0x91,
       CHR 0xE8, CHR 0x87, CHR 0xAA, CHR 0xE8, CHR 0xA1, CHR 0x8C, CHR 0xE8, CHR 0xBD,
       CHR 0xA6, CHR 0xE3, CHR 0x80, CHR 0x82] @ ''</li>'',
      ''<li>'' @ [CHR 0xE8, CHR 0xBF, CHR 0x99, CHR 0xE6, CHR 0x98, CHR 0xAF, CHR 0xE5,
       CHR 0x8F, CHR 0x82, CHR 0xE8, CHR 0xA7, CHR 0x82, CHR 0xE5, CHR 0x8D, CHR 0x9A,
       CHR 0xE7, CHR 0x89, CHR 0xA9, CHR 0xE9, CHR 0xA6, CHR 0x86, CHR 0xE3, CHR 0x80,
       CHR 0x81, CHR 0xE7, CHR 0xBE, CHR 0x8E, CHR 0xE6, CHR 0x9C, CHR 0xAF, CHR 0xE9,
       CHR 0xA6, CHR 0x86, CHR 0xE6, CHR 0x88, CHR 0x96, CHR 0xE8, CHR 0xB4, CHR 0xAD,
       CHR 0xE7, CHR 0x89, CHR 0xA9, CHR 0xE4, CHR 0xB8, CHR 0xAD, CHR 0xE5, CHR 0xBF,
       CHR 0x83, CHR 0xE7, CHR 0x9A, CHR 0x84, CHR 0xE5, CHR 0xA5, CHR 0xBD, CHR 0xE6,
       CHR 0x97, CHR 0xB6, CHR 0xE6, CHR 0x9C, CHR 0xBA, CHR 0xE3, CHR 0x80, CHR 0x82] @
       ''</li>'',
      ''<li>'' @ [CHR 0xE5, CHR 0xA4, CHR 0x9A, CHR 0xE4, CHR 0xBA, CHR 0x91, CHR 0xE5,
       CHR 0xA4, CHR 0xA9, CHR 0xE6, CHR 0xB0, CHR 0x94, CHR 0xE4, CHR 0xB8, CHR 0x8B,
       CHR 0xE7, CHR 0x9A, CHR 0x84, CHR 0xE6, CHR 0x91, CHR 0x84, CHR 0xE5, CHR 0xBD,
       CHR 0xB1, CHR 0xE4, CHR 0xB9, CHR 0x9F, CHR 0xE5, CHR 0xBE, CHR 0x88, CHR 0xE6,
       CHR 0x9C, CHR 0x89, CHR 0xE8, CHR 0xB4, CHR 0xA8, CHR 0xE6, CHR 0x84, CHR 0x9F,
       CHR 0xEF, CHR 0xBC, CHR 0x8C, CHR 0xE8, CHR 0xAF, CHR 0x95, CHR 0xE8, CHR 0xAF,
       CHR 0x95, CHR 0xE6, CHR 0x8A, CHR 0x93, CHR 0xE6, CHR 0x8B, CHR 0x8D, CHR 0xE4,
       CHR 0xBA, CHR 0x91, CHR 0xE6, CHR 0x9C, CHR 0xB5, CHR 0xE5, CHR 0x8F, CHR 0x98,
       CHR 0xE5, CHR 0x8C, CHR 0x96, CHR 0xEF, CHR 0xBC, CHR 0x81] @ ''</li>'']"

definition zh_rain :: "string list" where
  "zh_rain =
     [''<li>'' @ [CHR 0xE9, CHR 0x9B, CHR 0xA8, CHR 0xE5, CHR 0xA4, CHR 0xA9, CHR 0xE6,
       CHR 0x9C, CHR 0x80, CHR 0xE9, CHR 0x80, CHR 0x82, CHR 0xE5, CHR 0x90, CHR 0x88,
       CHR 0xE5, CHR 0xAE, CHR 0xA4, CHR 0xE5, CHR 0x86, CHR 0x85, CHR 0xE6, CHR 0xB4,
       CHR 0xBB, CHR 0xE5, CHR 0x8A, CHR 0xA8, CHR 0xEF, CHR 0xBC, CHR 0x8C, CHR 0xE5,
       CHR 0x8F, CHR 0xAF, CHR 0xE4, CHR 0xBB, CHR 0xA5, CHR 0xE8, CHR 0xAE, CHR 0xBF,
       CHR 0xE9, CHR 0x97, CHR 0xAE, CHR 0xE5, CHR 0x8D, CHR 0x9A, CHR 0xE7, CHR 0x89,
       CHR 0xA9, CHR 0xE9, CHR 0xA6, CHR 0x86, CHR 0xE3, CHR 0x80, CHR 0x81, CHR 0xE7,
       CHR 0x94, CHR 0xB5, CHR 0xE5, CHR 0xBD, CHR 0xB1, CHR 0xE9, CHR 0x99, CHR 0xA2,
       CHR 0xE6, CHR 0x88, CHR 0x96, CHR 0xE5, CHR 0x92, CHR 0x96, CHR 0xE5, CHR 0x95,
       CHR 0xA1, CHR 0xE5, CHR 0x8E, CHR 0x85, CHR 0xE3, CHR 0x80, CHR 0x82] @ ''</li>'',
      ''<li>'' @ [CHR 0xE5, CHR 0xA6, CHR 0x82, CHR 0xE9, CHR 0x9C, CHR 0x80, CHR 0xE5,
       CHR 0xA4, CHR 0x96, CHR 0xE5, CHR 0x87, CHR 0xBA, CHR 0xEF, CHR 0xBC, CHR 0x8C,
       CHR 0xE8, CHR 0xAF, CHR 0xB7, CHR 0xE6, CHR 0x90, CHR 0xBA, CHR 0xE5, CHR 0xB8,
       CHR 0xA6, CHR 0xE9, CHR 0x9B, CHR 0xA8, CHR 0xE4, CHR 0xBC, CHR 0x9E, CHR 0xE6,
       CHR 0x88, CHR 0x96, CHR 0xE7, CHR 0xA9, CHR 0xBF, CHR 0xE7, CHR 0x9D, CHR 0x80,
       CHR 0xE9, CHR 0x98, CHR 0xB2, CHR 0xE6, CHR 0xB0, CHR 0xB4, CHR 0xE5, CHR 0xA4,
       CHR 0x96, CHR 0xE5, CHR 0xA5, CHR 0x97, CHR 0xE3, CHR 0x80, CHR 0x82] @ ''</li>'',
      ''<li>'' @ [CHR 0xE8, CHR 0xBF, CHR 0x99, CHR 0xE6, CHR 0x98, CHR 0xAF, CHR 0xE5,
       CHR 0x9C, CHR 0xA8, CHR 0xE5, CHR 0xAE, CHR 0xB6, CHR 0xE4, CHR 0xBA, CHR 0xAB,
       CHR 0xE5, CHR 0x8F, CHR 0x97, CHR 0xE9, CHR 0x98, CHR 0x85, CHR 0xE8, CHR 0xAF,
       CHR 0xBB, CHR 0xE6, CHR 0x88, CHR 0x96, CHR 0xE7, CHR 0x9C, CHR 0x8B, CHR 0xE7,
       CHR 0x94, CHR 0xB5, CHR 0xE5, CHR 0xBD, CHR 0xB1, CHR 0xE7, CHR 0x9A, CHR 0x84,
       CHR 0xE5, CHR 0xA5, CHR 0xBD, CHR 0xE6, CHR 0x97, CHR 0xB6, CHR 0xE6, CHR 0x9C,
       CHR 0xBA, CHR 0xE3, CHR 0x80, CHR 0x82] @ ''</li>'']"

definition zh_snow :: "string list" where
  "zh_snow =
     [''<li>'' @ [CHR 0xE9, CHR 0x9B, CHR 0xAA, CHR 0xE5, CHR 0xA4, CHR 0xA9, CHR 0xE9,
       CHR 0x80, CHR 0x82, CHR 0xE5, CHR 0x90, CHR 0x88, CHR 0xE5, CHR 0x86, CHR 0xAC,
       CHR 0xE5, CHR 0xAD, CHR 0xA3, CHR 0xE8, CHR 0xBF, CHR 0x90, CHR 0xE5, CHR 0x8A,
       CHR 0xA8, CHR 0xEF, CHR 0xBC, CHR 0x8C, CHR 0xE5, CHR 0xA6, CHR 0x82, CHR 0xE6,
       CHR 0xBB, CHR 0x91, CHR 0xE9, CHR 0x9B, CHR 0xAA, CHR 0xE3, CHR 0x80, CHR 0x81,
       CHR 0xE9, CHR 0x9B, CHR 0xAA, CHR 0xE6, CHR 0xA9, CHR 0x87, CHR 0xE6, CHR 0x88,
       CHR 0x96, CHR 0xE5, CHR 0xA0, CHR 0x86, CHR 0xE9, CHR 0x9B, CHR 0xAA, CHR 0xE4,
       CHR 0xBA, CHR 0xBA, CHR 0xE3, CHR 0x80, CHR 0x82] @ ''</li>'',
      ''<li>'' @ [CHR 0xE5, CHR 0xA4, CHR 0x96, CHR 0xE5, CHR 0x87, CHR 0xBA, CHR 0xE6,
       CHR 0x97, CHR 0xB6, CHR 0xE8, CHR 0xAF, CHR 0xB7, CHR 0xE7, CHR 0xA9, CHR 0xBF,
       CHR 0xE7, CHR 0x9D, CHR 0x80, CHR 0xE4, CHR 0xBF, CHR 0x9D, CHR 0xE6, CHR 0x9A,
       CHR 0x96, CHR 0xE8, CHR 0xA1, CHR 0xA3, CHR 0xE7, CHR 0x89, CHR 0xA9, CHR 0xEF,
       CHR 0xBC, CHR 0x8C, CHR 0xE6, CHR 0xB3, CHR 0xA8, CHR 0xE6, CHR 0x84, CHR 0x8F,
       CHR 0xE8, CHR 0xB7, CHR 0xAF, CHR 0xE9, CHR 0x9D, CHR 0xA2, CHR 0xE5, CHR 0x8F,
       CHR 0xAF, CHR 0xE8, CHR 0x83, CHR 0xBD, CHR 0xE6, CHR 0xB9, CHR 0xBF, CHR 0xE6,
       CHR 0xBB, CHR 0x91, CHR 0xE3, CHR 0x80, CHR 0x82] @ ''</li>'',
      ''<li>'' @ [CHR 0xE8, CHR 0xBF, CHR 0x99, CHR 0xE6, CHR 0x98, CHR 0xAF, CHR 0xE5,
       CHR 0x9C, CHR 0xA8, CHR 0xE5, CHR 0xAE, CHR 0xB6, CHR 0xE4, CHR 0xBA, CHR 0xAB,
       CHR 0xE5, CHR 0x8F, CHR 0x97, CHR 0xE7, CHR 0x83, CHR 0xAD, CHR 0xE9, CHR 0xA5,
       CHR 0xAE, CHR 0xE5, CHR 0x92, CHR 0x8C, CHR 0xE6, CHR 0xB8, CHR 0xA9, CHR 0xE6,
       CHR 0x9A, CHR 0x96, CHR 0xE6, CHR 0xB4, CHR 0xBB, CHR 0xE5, CHR 0x8A, CHR 0xA8,
       CHR 0xE7, CHR 0x9A, CHR 0x84, CHR 0xE5, CHR 0xA5, CHR 0xBD, CHR 0xE6, CHR 0x97,
       CHR 0xB6, CHR 0xE6, CHR 0x9C, CHR 0xBA, CHR 0xE3, CHR 0x80, CHR 0x82] @ ''</li>'']"

definition zh_thunder :: "string list" where
  "zh_thunder =
     [''<li>'' @ [CHR 0xE9, CHR 0x9B, CHR 0xB7, CHR 0xE6, CHR 0x9A, CHR 0xB4, CHR 0xE5,
       CHR 0xA4, CHR 0xA9, CHR 0xE6, CHR 0xB0, CHR 0x94, CHR 0xE8, CHR 0xAF, CHR 0xB7,
       CHR 0xE5, CHR 0xB0, CHR 0xBD, CHR 0xE9, CHR 0x87, CHR 0x8F, CHR 0xE9, CHR 0x81,
       CHR 0xBF, CHR 0xE5, CHR 0x85, CHR 0x8D, CHR 0xE6, CHR 0x88, CHR 0xB7, CHR 0xE5,
       CHR 0xA4, CHR 0x96, CHR 0xE6, CHR 0xB4, CHR 0xBB, CHR 0xE5, CHR 0x8A, CHR 0xA8,
       CHR 0xEF, CHR 0xBC, CHR 0x8C, CHR 0xE7, CHR 0x95, CHR 0x99, CHR 0xE5, CHR 0x9C,
       CHR 0xA8, CHR 0xE5, CHR 0xAE, CHR 0xA4, CHR 0xE5, CHR 0x86, CHR 0x85, CHR 0xE5,
       CHR 0xAE, CHR 0x89, CHR 0xE5, CHR 0x85, CHR 0xA8, CHR 0xE5, CHR 0x9C, CHR 0xB0,
       CHR 0xE6, CHR 0x96, CHR 0xB9, CHR 0xE3, CHR 0x80, CHR 0x82] @ ''</li>'',
      ''<li>'' @ [CHR 0xE7, CHR 0xA1, CHR 0xAE, CHR 0xE4, CHR 0xBF, CHR 0x9D, CHR 0xE7,
       CHR 0x94, CHR 0xB5, CHR 0xE5, CHR 0xAD, CHR 0x90, CHR 0xE8, CHR 0xAE, CHR 0xBE,
       CHR 0xE5, CHR 0xA4, CHR 0x87, CHR 0xE5, CHR 0xB7, CHR 0xB2, CHR 0xE5, CHR 0x85,
       CHR 0x85, CHR 0xE7, CHR 0x94, CHR 0xB5, CHR 0xEF, CHR 0xBC, CHR 0x8C, CHR 0xE4,
       CHR 0xBB, CHR 0xA5, CHR 0xE9, CHR 0x98, CHR 0xB2, CHR 0xE5, CHR 0x81, CHR 0x9C,
       CHR 0xE7, CHR 0x94, CHR 0xB5, CHR 0xE3, CHR 0x80, CHR 0x82] @ ''</li>'',
      ''<li>'' @ [CHR 0xE8, CHR 0xBF, CHR 0x99, CHR 0xE6, CHR 0x98, CHR 0xAF, CHR 0xE5,
       CHR 0x9C, CHR 0xA8, CHR 0xE5, CHR 0xAE, CHR 0xB6, CHR 0xE4, CHR 0xBA, CHR 0xAB,
       CHR 0xE5, CHR 0x8F, CHR 0x97, CHR 0xE9, CHR 0x98, CHR 0x85, CHR 0xE8, CHR 0xAF,
       CHR 0xBB, CHR 0xE6, CHR 0x88, CHR 0x96, CHR 0xE5, CHR 0xA8, CHR 0xB1, CHR 0xE4,
       CHR 0xB9, CHR 0x90, CHR 0xE6, CHR 0xB4, CHR 0xBB, CHR 0xE5, CHR 0x8A, CHR 0xA8,
       CHR 0xE7, CHR 0x9A, CHR 0x84, CHR 0xE5, CHR 0xA5, CHR 0xBD, CHR 0xE6, CHR 0x97,
       CHR 0xB6, CHR 0xE6, CHR 0x9C, CHR 0xBA, CHR 0xE3, CHR 0x80, CHR 0x82] @ ''</li>'']"

definition zh_fog :: "string list" where
  "zh_fog =
     [''<li>'' @ [CHR 0xE9, CHR 0x9B, CHR 0xBE, CHR 0xE5, CHR 0xA4, CHR 0xA9, CHR 0xE9,
       CHR 0xA9, CHR 0xBE, CHR 0xE9, CHR 0xA9, CHR 0xB6, CHR 0xE8, CHR 0xAF, CHR 0xB7,
       CHR 0xE5, CHR 0x87, CHR 0x8F, CHR 0xE9, CHR 0x80, CHR 0x9F, CHR 0xE5, CHR 0xB9,
       CHR 0xB6, CHR 0xE6, CHR 0x89, CHR 0x93, CHR 0xE5, CHR 0xBC, CHR 0x80, CHR 0xE8,
       CHR 0xBD, CHR 0xA6, CHR 0xE7, CHR 0x81, CHR 0xAF, CHR 0xEF, CHR 0xBC, CHR 0x8C,
       CHR 0xE4, CHR 0xBF, CHR 0x9D, CHR 0xE6, CHR 0x8C, CHR 0x81, CHR 0xE5, CHR 0xAE,
       CHR 0x89, CHR 0xE5, CHR 0x85, CHR 0xA8, CHR 0xE8, CHR 0xB7, CHR 0x9D, CHR 0xE7,
       CHR 0xA6, CHR 0xBB, CHR 0xE3, CHR 0x80, CHR 0x82] @ ''</li>'',
      ''<li>'' @ [CHR 0xE9, CHR 0x80, CHR 0x82, CHR 0xE5, CHR 0x90, CHR 0x88, CHR 0xE8,
       CHR 0xBF, CHR 0x91, CHR 0xE8, CHR 0xB7, CHR 0x9D, CHR 0xE7, CHR 0xA6, CHR 0xBB,
       CHR 0xE6, CHR 0xB4, CHR 0xBB, CHR 0xE5, CHR 0x8A, CHR 0xA8, CHR 0xEF, CHR 0xBC,
       CHR 0x8C, CHR 0xE9, CHR 0x81, CHR 0xBF, CHR 0xE5, CHR 0x85, CHR 0x8D, CHR 0xE9,
       CHR 0x95, CHR 0xBF, CHR 0xE9, CHR 0x80, CHR 0x94, CHR 0xE6, CHR 0x97, CHR 0x85,
       CHR 0xE8, CHR 0xA1, CHR 0x8C, CHR 0xE3, CHR 0x80, CHR 0x82] @ ''</li>'',
      ''<li>'' @ [CHR 0xE9, CHR 0x9B, CHR 0xBE, CHR 0xE5, CHR 0xA4, CHR 0xA9, CHR 0xE6,
       CHR 0xB0, CHR 0x9B, CHR 0xE5, CHR 0x9B, CHR 0xB4, CHR 0xE7, CHR 0x8B, CHR 0xAC,
       CHR 0xE7, CHR 0x89, CHR 0xB9, CHR 0xEF, CHR 0xBC, CHR 0x8C, CHR 0xE6, CHR 0x91,
       CHR 0x84, CHR 0xE5, CHR 0xBD, CHR 0xB1, CHR 0xE7, CHR 0x88, CHR 0xB1, CHR 0xE5,
       CHR 0xA5, CHR 0xBD, CHR 0xE8, CHR 0x80, CHR 0x85, CHR 0xE5, CHR 0x8F, CHR 0xAF,
       CHR 0xE4, CHR 0xBB, CHR 0xA5, CHR 0xE6, CHR 0x8D, CHR 0x95, CHR 0xE6, CHR 0x8D,
       CHR 0x89, CHR 0xE8, CHR 0xBF, CHR 0xB7, CHR 0xE4, CHR 0xBA, CHR 0xBA, CHR 0xE6,
       CHR 0x99, CHR 0xAF, CHR 0xE8, CHR 0x89, CHR 0xB2, CHR 0xE3, CHR 0x80, CHR 0x82] @
       ''</li>'']"

definition zh_other :: "string list" where
  "zh_other =
     [''<li>'' @ [CHR 0xE8, CHR 0xAF, CHR 0xB7, CHR 0xE6, CHR 0xA0, CHR 0xB9, CHR 0xE6,
       CHR 0x8D, CHR 0xAE, CHR 0xE5, CHR 0xAE, CHR 0x9E, CHR 0xE6, CHR 0x97, CHR 0xB6,
       CHR 0xE5, CHR 0xA4, CHR 0xA9, CHR 0xE6, CHR 0xB0, CHR 0x94, CHR 0xE7, CHR 0x8A,
       CHR 0xB6, CHR 0xE5, CHR 0x86, CHR 0xB5, CHR 0xE8, CHR 0xB0, CHR 0x83, CHR 0xE6,
       CHR 0x95, CHR 0xB4, CHR 0xE6, CHR 0x82, CHR 0xA8, CHR 0xE7, CHR 0x9A, CHR 0x84,
       CHR 0xE6, CHR 0xB4, CHR 0xBB, CHR 0xE5, CHR 0x8A, CHR 0xA8, CHR 0xE8, CHR 0xAE,
       CHR 0xA1, CHR 0xE5, CHR 0x88, CHR 0x92, CHR 0xE3, CHR 0x80, CHR 0x82] @ ''</li>'',
      ''<li>'' @ [CHR 0xE5, CHR 0x87, CHR 0xBA, CHR 0xE9, CHR 0x97, CHR 0xA8, CHR 0xE5,
       CHR 0x89, CHR 0x8D, CHR 0xE6, CHR 0xA3, CHR 0x80, CHR 0xE6, CHR 0x9F, CHR 0xA5,
       CHR 0xE6, CHR 0x9C, CHR 0x80, CHR 0xE6, CHR 0x96, CHR 0xB0, CHR 0xE5, CHR 0xA4,
       CHR 0xA9, CHR 0xE6, CHR 0xB0, CHR 0x94, CHR 0xE9, CHR 0xA2, CHR 0x84, CHR 0xE6,
       CHR 0x8A, CHR 0xA5, CHR 0xE3, CHR 0x80, CHR 0x82] @ ''</li>'',
      ''<li>'' @ [CHR 0xE9, CHR 0x9A, CHR 0x8F, CHR 0xE6, CHR 0x97, CHR 0xB6, CHR 0xE5,
       CHR 0x87, CHR 0x86, CHR 0xE5, CHR 0xA4, CHR 0x87, CHR 0xE9, CHR 0x80, CHR 0x82,
       CHR 0xE5, CHR 0x90, CHR 0x88, CHR 0xE5, CHR 0xBD, CHR 0x93, CHR 0xE5, CHR 0xA4,
       CHR 0xA9, CHR 0xE5, CHR 0xA4, CHR 0xA9, CHR 0xE6, CHR 0xB0, CHR 0x94, CHR 0xE7,
       CHR 0x9A, CHR 0x84, CHR 0xE6, CHR 0x9C, CHR 0x8D, CHR 0xE8, CHR 0xA3, CHR 0x85,
       CHR 0xE5, CHR 0x92, CHR 0x8C, CHR 0xE8, CHR 0xA3, CHR 0x85, CHR 0xE5, CHR 0xA4,
       CHR 0x87, CHR 0xE3, CHR 0x80, CHR 0x82] @ ''</li>'']"

definition en_clear :: "string list" where
  "en_clear =
     [''<li>Perfect weather for outdoor activities like hiking, picnics,
       or walks in the park.</li>'',
      ''<li>Remember to apply sunscreen and stay hydrated when out in the sun.</li>'',
      ''<li>Great day for outdoor photography!</li>'']"

definition en_cloud :: "string list" where
  "en_cloud =
     [''<li>Cloudy weather is good for light outdoor activities like walking, jogging,
       or cycling.</li>'',
      ''<li>Good time to visit museums, art galleries, or shopping centers.</li>'',
      ''<li>Cloudy days offer great lighting for photography without harsh shadows.</li>'']"

definition en_rain :: "string list" where
  "en_rain =
     [''<li>Rainy weather is perfect for indoor activities - visit museums, cinemas,
       or cafes.</li>'',
      ''<li>If you need to go out, carry an umbrella or wear a waterproof jacket.</li>'',
      ''<li>Great time for reading or movie watching at home.</li>'']"

definition en_snow :: "string list" where
  "en_snow =
     [''<li>Snow weather is great for winter sports like skiing, sledding,
       or building snowmen.</li>'',
      ''<li>Wear warm layers when going outside and be cautious of slippery surfaces.</li>'',
      ''<li>Perfect time for warm drinks and cozy activities at home.</li>'']"

definition en_thunder :: "string list" where
  "en_thunder =
     [''<li>During thunderstorms,
       avoid outdoor activities and stay inside a safe building.</li>'',
      ''<li>Ensure electronic devices are charged in case of power outages.</li>'',
      ''<li>Great time for indoor reading or entertainment.</li>'']"

definition en_fog :: "string list" where
  "en_fog =
     [''<li>Drive slowly with lights on during foggy conditions and maintain safe distances.</li>'',
      ''<li>Better for close-to-home activities,
       avoid long-distance travel if possible.</li>'',
      ''<li>Fog creates unique atmospheres for photographers to capture.</li>'']"

definition en_other :: "string list" where
  "en_other =
     [''<li>Adjust your activities according to the current weather conditions.</li>'',
      ''<li>Check the latest forecast before heading out.</li>'',
      ''<li>Be prepared with appropriate clothing and gear for the day'' @ [CHR 0x27] @
       ''s weather.</li>'']"

definition zh_hot :: string where
  "zh_hot =
     ''<li>'' @ [CHR 0xE9, CHR 0xAB, CHR 0x98, CHR 0xE6, CHR 0xB8, CHR 0xA9, CHR 0xE5,
     CHR 0xA4, CHR 0xA9, CHR 0xE6, CHR 0xB0, CHR 0x94, CHR 0xE8, CHR 0xAF, CHR 0xB7,
     CHR 0xE9, CHR 0x81, CHR 0xBF, CHR 0xE5, CHR 0x85, CHR 0x8D, CHR 0xE5, CHR 0x89,
     CHR 0xA7, CHR 0xE7, CHR 0x83, CHR 0x88, CHR 0xE8, CHR 0xBF, CHR 0x90, CHR 0xE5,
     CHR 0x8A, CHR 0xA8, CHR 0xEF, CHR 0xBC, CHR 0x8C, CHR 0xE5, CHR 0xA4, CHR 0x9A,
     CHR 0xE5, CHR 0x96, CHR 0x9D, CHR 0xE6, CHR 0xB0, CHR 0xB4, CHR 0xE5, CHR 0xB9,
     CHR 0xB6, CHR 0xE5, CHR 0xAF, CHR 0xBB, CHR 0xE6, CHR 0x89, CHR 0xBE, CHR 0xE9,
     CHR 0x98, CHR 0xB4, CHR 0xE5, CHR 0x87, CHR 0x89, CHR 0xE5, CHR 0xA4, CHR 0x84,
     CHR 0xE3, CHR 0x80, CHR 0x82] @ ''</li>''"

definition zh_cold :: string where
  "zh_cold =
     ''<li>'' @ [CHR 0xE4, CHR 0xBD, CHR 0x8E, CHR 0xE6, CHR 0xB8, CHR 0xA9, CHR 0xE5,
     CHR 0xA4, CHR 0xA9, CHR 0xE6, CHR 0xB0, CHR 0x94, CHR 0xE8, CHR 0xAF, CHR 0xB7,
     CHR 0xE7, CHR 0xA9, CHR 0xBF, CHR 0xE7, CHR 0x9D, CHR 0x80, CHR 0xE4, CHR 0xBF,
     CHR 0x9D, CHR 0xE6, CHR 0x9A, CHR 0x96, CHR 0xE8, CHR 0xA1, CHR 0xA3, CHR 0xE7,
     CHR 0x89, CHR 0xA9, CHR 0xEF, CHR 0xBC, CHR 0x8C, CHR 0xE7, CHR 0x89, CHR 0xB9,
     CHR 0xE5, CHR 0x88, CHR 0xAB, CHR 0xE6, CHR 0x98, CHR 0xAF, CHR 0xE4, CHR 0xBF,
     CHR 0x9D, CHR 0xE6, CHR 0x8A, CHR 0xA4, CHR 0xE5, CHR 0xA4, CHR 0xB4, CHR 0xE9,
     CHR 0x83, CHR 0xA8, CHR 0xE3, CHR 0x80, CHR 0x81, CHR 0xE6, CHR 0x89, CHR 0x8B,
     CHR 0xE9, CHR 0x83, CHR 0xA8, CHR 0xE5, CHR 0x92, CHR 0x8C, CHR 0xE8, CHR 0x84,
     CHR 0x9A, CHR 0xE9, CHR 0x83, CHR 0xA8, CHR 0xE3, CHR 0x80, CHR 0x82] @ ''</li>''"

definition zh_precip :: string where
  "zh_precip =
     ''<li>'' @ [CHR 0xE6, CHR 0x9C, CHR 0x89, CHR 0xE8, CHR 0xBE, CHR 0x83, CHR 0xE9,
     CHR 0xAB, CHR 0x98, CHR 0xE9, CHR 0x99, CHR 0x8D, CHR 0xE6, CHR 0xB0, CHR 0xB4,
     CHR 0xE5, CHR 0x8F, CHR 0xAF, CHR 0xE8, CHR 0x83, CHR 0xBD, CHR 0xEF, CHR 0xBC,
     CHR 0x8C, CHR 0xE5, CHR 0xA4, CHR 0x96, CHR 0xE5, CHR 0x87, CHR 0xBA, CHR 0xE8,
     CHR 0xAF, CHR 0xB7, CHR 0xE6, CHR 0x90, CHR 0xBA, CHR 0xE5, CHR 0xB8, CHR 0xA6,
     CHR 0xE9, CHR 0x9B, CHR 0xA8, CHR 0xE5, CHR 0x85, CHR 0xB7, CHR 0xE3, CHR 0x80,
     CHR 0x82] @ ''</li>''"

definition en_hot :: string where
  "en_hot =
     ''<li>Avoid strenuous activities in high temperatures, stay hydrated,
     and seek shade.</li>''"

definition en_cold :: string where
  "en_cold =
     ''<li>Dress warmly in cold temperatures, especially protecting your head, hands,
     and feet.</li>''"

definition en_precip :: string where
  "en_precip =
     ''<li>High chance of precipitation, bring rain gear when going out.</li>''"

definition zh_filler :: string where
  "zh_filler =
     ''<li>'' @ [CHR 0xE8, CHR 0xAF, CHR 0xB7, CHR 0xE6, CHR 0xA0, CHR 0xB9, CHR 0xE6,
     CHR 0x8D, CHR 0xAE, CHR 0xE5, CHR 0xA4, CHR 0xA9, CHR 0xE6, CHR 0xB0, CHR 0x94,
     CHR 0xE7, CHR 0x8A, CHR 0xB6, CHR 0xE5, CHR 0x86, CHR 0xB5, CHR 0xE5, CHR 0x81,
     CHR 0x9A, CHR 0xE5, CHR 0xA5, CHR 0xBD, CHR 0xE7, CHR 0x9B, CHR 0xB8, CHR 0xE5,
     CHR 0xBA, CHR 0x94, CHR 0xE5, CHR 0x87, CHR 0x86, CHR 0xE5, CHR 0xA4, CHR 0x87,
     CHR 0xE3, CHR 0x80, CHR 0x82] @ ''</li>''"

definition en_filler :: string where
  "en_filler =
     ''<li>Be prepared according to weather conditions.</li>''"

subsection \<open>\<open>generate_activity_suggestions\<close>\<close>

text \<open>\<open>v.lower()\<close>: only a string has the method.\<close>

fun py_lower :: "pyval \<Rightarrow> pyerr + string" where
  "py_lower (PStr s) = Inr (lower s)"
| "py_lower _ = Inl AttributeError"

text \<open>
  \<open>float(v)\<close>: a string is parsed (\<open>ValueError\<close> where it is no number), a number is taken
  as it is, anything else is a \<open>TypeError\<close>.
\<close>

fun py_float :: "platform \<Rightarrow> pyval \<Rightarrow> pyerr + rat" where
  "py_float env (PStr s) =
     (case float_of_str env s of Some r \<Rightarrow> Inr r | None \<Rightarrow> Inl ValueError)"
| "py_float env v = (case num_val v of Some r \<Rightarrow> Inr r | None \<Rightarrow> Inl TypeError)"

text \<open>\<open>weather_info.get(key, default)\<close> on the summary dict.\<close>

definition dict_get :: "summary \<Rightarrow> string \<Rightarrow> pyval \<Rightarrow> pyval" where
  "dict_get d k dflt = (case d k of Some v \<Rightarrow> v | None \<Rightarrow> dflt)"

text \<open>The \<open>if\<close>/\<open>elif\<close> chain over the weather type, once per language family.\<close>

definition zh_bucket :: "string \<Rightarrow> string list" where
  "zh_bucket weather_type =
     (if contains weather_type ''clear'' \<or> weather_type = ''sun'' then zh_clear
      else if contains weather_type ''cloud'' then zh_cloud
      else if contains weather_type ''rain'' then zh_rain
      else if contains weather_type ''snow'' then zh_snow
      else if contains weather_type ''thunder'' \<or> contains weather_type ''storm''
      then zh_thunder
      else if contains weather_type ''fog'' \<or> contains weather_type ''mist'' then zh_fog
      else zh_other)"

definition en_bucket :: "string \<Rightarrow> string list" where
  "en_bucket weather_type =
     (if contains weather_type ''clear'' \<or> weather_type = ''sun'' then en_clear
      else if contains weather_type ''cloud'' then en_cloud
      else if contains weather_type ''rain'' then en_rain
      else if contains weather_type ''snow'' then en_snow
      else if contains weather_type ''thunder'' \<or> contains weather_type ''storm''
      then en_thunder
      else if contains weather_type ''fog'' \<or> contains weather_type ''mist'' then en_fog
      else en_other)"

text \<open>
  The list \<open>suggestions\<close> before the selection: the three texts of the bucket, then the
  temperature text (the hot one, else the cold one) and the precipitation text.
\<close>

definition suggestion_pool :: "string \<Rightarrow> string \<Rightarrow> rat \<Rightarrow> rat \<Rightarrow> rat \<Rightarrow> string list" where
  "suggestion_pool language weather_type temp_min temp_max precip_peak =
     (if startswith language ''zh''
      then zh_bucket weather_type
             @ (if 30 < temp_max then [zh_hot] else if temp_min < 5 then [zh_cold] else [])
             @ (if 50 < precip_peak then [zh_precip] else [])
      else en_bucket weather_type
             @ (if 30 < temp_max then [en_hot] else if temp_min < 5 then [en_cold] else [])
             @ (if 50 < precip_peak then [en_precip] else []))"

text \<open>
  \<open>random.sample(population, k)\<close> is a parameter: \<open>rng n k\<close> are the positions it picks in
  a population of \<open>n\<close>. The library picks \<open>k\<close> different positions, which \<open>sample_ok\<close> says;
  how likely each choice is, is not modelled.
\<close>

type_synonym sampler = "nat \<Rightarrow> nat \<Rightarrow> nat list"

definition sample_ok :: "sampler \<Rightarrow> nat \<Rightarrow> nat \<Rightarrow> bool" where
  "sample_ok rng n k \<longleftrightarrow>
     length (rng n k) = k \<and> distinct (rng n k) \<and> list_all (\<lambda>i. i < n) (rng n k)"

definition select_three :: "sampler \<Rightarrow> string list \<Rightarrow> string list" where
  "select_three rng suggestions =
     (if 3 < length suggestions
      then map (\<lambda>i. suggestions ! i) (rng (length suggestions) 3)
      else suggestions)"

definition suggestion_key :: "nat \<Rightarrow> string" where
  "suggestion_key i = ''activity_suggestion_'' @ nat_str i"

definition filler :: "string \<Rightarrow> string" where
  "filler language = (if startswith language ''zh'' then zh_filler else en_filler)"

text \<open>The loop \<open>for i, suggestion in enumerate(selected_suggestions, 1)\<close>.\<close>

fun enumerate_into ::
  "nat \<Rightarrow> string list \<Rightarrow> (string \<rightharpoonup> string) \<Rightarrow> (string \<rightharpoonup> string)" where
  "enumerate_into i [] d = d"
| "enumerate_into i (x # xs) d = enumerate_into (Suc i) xs (d(suggestion_key i \<mapsto> x))"

text \<open>The dict of the selected suggestions, filled up to three by the second loop,
  \<open>for i in range(len(selected_suggestions) + 1, 4)\<close>.\<close>

definition build_dict :: "string \<Rightarrow> string list \<Rightarrow> (string \<rightharpoonup> string)" where
  "build_dict language selected =
     fold (\<lambda>i d. d(suggestion_key i \<mapsto> filler language)) [length selected + 1 ..< 4]
       (enumerate_into 1 selected Map.empty)"

text \<open>The function from the selection on, for any list of candidates.\<close>

definition finish_suggestions :: "sampler \<Rightarrow> string \<Rightarrow> string list \<Rightarrow> (string \<rightharpoonup> string)" where
  "finish_suggestions rng language suggestions =
     build_dict language (select_three rng suggestions)"

definition generate_activity_suggestions ::
  "platform \<Rightarrow> sampler \<Rightarrow> summary \<Rightarrow> string \<Rightarrow> pyerr + (string \<rightharpoonup> string)" where
  "generate_activity_suggestions env rng weather_info language =
     bind_err (py_lower (dict_get weather_info ''weather_main_type'' (PStr []))) (\<lambda>weather_type.
     bind_err (py_float env (dict_get weather_info ''temp_min'' (PInt 0))) (\<lambda>temp_min.
     bind_err (py_float env (dict_get weather_info ''temp_max'' (PInt 0))) (\<lambda>temp_max.
     bind_err (py_float env (dict_get weather_info ''max_precip'' (PInt 0))) (\<lambda>precip_peak.
     Inr (finish_suggestions rng language
            (suggestion_pool language weather_type temp_min temp_max precip_peak))))))"

text \<open>The three values of a returned dict, in the order of their keys; an absent key
  reads as the empty text.\<close>

definition suggestion_values :: "(string \<rightharpoonup> string) \<Rightarrow> string list" where
  "suggestion_values d =
     map (\<lambda>i. case d (suggestion_key i) of Some s \<Rightarrow> s | None \<Rightarrow> []) [1, 2, 3]"

definition suggestion_keys :: "string set" where
  "suggestion_keys = {suggestion_key 1, suggestion_key 2, suggestion_key 3}"

text \<open>A sampler for the concrete evaluations: it picks the first \<open>k\<close> positions.\<close>

definition first_positions :: sampler where
  "first_positions n k = [0 ..< k]"

subsection \<open>Facts about the suggestions\<close>

lemma suggestion_key_values:
  "suggestion_key (Suc 0) = ''activity_suggestion_1''"
  "suggestion_key 1 = ''activity_suggestion_1''"
  "suggestion_key 2 = ''activity_suggestion_2''"
  "suggestion_key 3 = ''activity_suggestion_3''"
  "suggestion_key (Suc (Suc 0)) = ''activity_suggestion_2''"
  "suggestion_key (Suc (Suc (Suc 0))) = ''activity_suggestion_3''"
  by code_simp+

lemma small_ranges:
  "[Suc 0 ..< 4] = [1, 2, 3]" "[2 ..< 4] = [2, 3]" "[3 ..< 4] = [3]" "[4 ..< 4] = []"
  "[Suc (Suc 0) ..< 4] = [2, 3]" "[Suc (Suc (Suc 0)) ..< 4] = [3]"
  "[Suc (Suc (Suc (Suc 0))) ..< 4] = []"
  by code_simp+

text \<open>The dict for up to three selected texts: the texts, then the filler.\<close>

lemma build_dict_shape:
  assumes "length selected \<le> 3"
  shows "dom (build_dict language selected) = suggestion_keys
    \<and> suggestion_values (build_dict language selected)
        = selected @ replicate (3 - length selected) (filler language)"
proof -
  consider "selected = []" | a where "selected = [a]" | a b where "selected = [a, b]"
    | a b c where "selected = [a, b, c]"
  proof (cases selected)
    case Nil
    then show ?thesis using that by blast
  next
    case (Cons a r1)
    then show ?thesis
    proof (cases r1)
      case Nil
      with Cons show ?thesis using that by blast
    next
      case (Cons b r2)
      note c2 = Cons
      then show ?thesis
      proof (cases r2)
        case Nil
        with c2 \<open>selected = a # r1\<close> show ?thesis using that by blast
      next
        case (Cons c r3)
        with c2 \<open>selected = a # r1\<close> assms have "r3 = []" by simp
        with Cons c2 \<open>selected = a # r1\<close> show ?thesis using that by blast
      qed
    qed
  qed
  then show ?thesis
  proof cases
    case 1
    then show ?thesis
      by (auto simp: build_dict_def suggestion_values_def suggestion_keys_def
          suggestion_key_values small_ranges numeral_3_eq_3)
  next
    case 2
    then show ?thesis
      by (auto simp: build_dict_def suggestion_values_def suggestion_keys_def
          suggestion_key_values small_ranges numeral_2_eq_2)
  next
    case 3
    then show ?thesis
      by (auto simp: build_dict_def suggestion_values_def suggestion_keys_def
          suggestion_key_values small_ranges numeral_3_eq_3)
  next
    case 4
    then show ?thesis
      by (auto simp: build_dict_def suggestion_values_def suggestion_keys_def
          suggestion_key_values small_ranges numeral_3_eq_3)
  qed
qed

lemma select_three_length:
  assumes "3 < length suggestions \<longrightarrow> sample_ok rng (length suggestions) 3"
  shows "length (select_three rng suggestions) \<le> 3"
  using assms by (auto simp: select_three_def sample_ok_def)

lemma select_three_subset:
  assumes "3 < length suggestions \<longrightarrow> sample_ok rng (length suggestions) 3"
  shows "set (select_three rng suggestions) \<subseteq> set suggestions"
  using assms by (auto simp: select_three_def sample_ok_def list_all_iff)


text \<open>Every text of every pool is non-empty and wrapped as a list item.\<close>

definition li_wrapped :: "string \<Rightarrow> bool" where
  "li_wrapped s \<longleftrightarrow> startswith s ''<li>'' \<and> endswith s ''</li>''"

lemma bucket_texts_wrapped:
  "list_all li_wrapped zh_clear" "list_all li_wrapped zh_cloud" "list_all li_wrapped zh_rain"
  "list_all li_wrapped zh_snow" "list_all li_wrapped zh_thunder" "list_all li_wrapped zh_fog"
  "list_all li_wrapped zh_other"
  "list_all li_wrapped en_clear" "list_all li_wrapped en_cloud" "list_all li_wrapped en_rain"
  "list_all li_wrapped en_snow" "list_all li_wrapped en_thunder" "list_all li_wrapped en_fog"
  "list_all li_wrapped en_other"
  by code_simp+

lemma extra_texts_wrapped:
  "li_wrapped zh_hot" "li_wrapped zh_cold" "li_wrapped zh_precip"
  "li_wrapped en_hot" "li_wrapped en_cold" "li_wrapped en_precip"
  "li_wrapped zh_filler" "li_wrapped en_filler"
  by code_simp+

lemma bucket_lengths:
  "length zh_clear = 3" "length zh_cloud = 3" "length zh_rain = 3" "length zh_snow = 3"
  "length zh_thunder = 3" "length zh_fog = 3" "length zh_other = 3"
  "length en_clear = 3" "length en_cloud = 3" "length en_rain = 3" "length en_snow = 3"
  "length en_thunder = 3" "length en_fog = 3" "length en_other = 3"
  by (simp_all add: zh_clear_def zh_cloud_def zh_rain_def zh_snow_def zh_thunder_def
      zh_fog_def zh_other_def en_clear_def en_cloud_def en_rain_def en_snow_def
      en_thunder_def en_fog_def en_other_def)

lemma li_wrapped_nonempty: "li_wrapped s \<Longrightarrow> s \<noteq> []"
  by (auto simp: li_wrapped_def startswith_def)

lemma bucket_wrapped:
  "list_all li_wrapped (zh_bucket w)" "list_all li_wrapped (en_bucket w)"
  by (simp_all add: zh_bucket_def en_bucket_def bucket_texts_wrapped)

lemma bucket_length: "length (zh_bucket w) = 3" "length (en_bucket w) = 3"
  by (simp_all add: zh_bucket_def en_bucket_def bucket_lengths)

lemma suggestion_pool_wrapped:
  "list_all li_wrapped (suggestion_pool language w temp_min temp_max precip_peak)"
  by (simp add: suggestion_pool_def bucket_wrapped extra_texts_wrapped)

lemma suggestion_pool_length:
  "3 \<le> length (suggestion_pool language w temp_min temp_max precip_peak)"
  by (simp add: suggestion_pool_def bucket_length)

lemma filler_wrapped: "li_wrapped (filler language)"
  by (simp add: filler_def extra_texts_wrapped)

text \<open>The function succeeds exactly when its four fields can be read.\<close>

lemma generate_activity_suggestions_reads:
  assumes "py_lower (dict_get weather_info ''weather_main_type'' (PStr [])) = Inr weather_type"
    and "py_float env (dict_get weather_info ''temp_min'' (PInt 0)) = Inr temp_min"
    and "py_float env (dict_get weather_info ''temp_max'' (PInt 0)) = Inr temp_max"
    and "py_float env (dict_get weather_info ''max_precip'' (PInt 0)) = Inr precip_peak"
  shows "generate_activity_suggestions env rng weather_info language
           = Inr (finish_suggestions rng language
                    (suggestion_pool language weather_type temp_min temp_max precip_peak))"
  using assms by (simp add: generate_activity_suggestions_def)


lemma sample_ok_first_positions: "3 < n \<Longrightarrow> sample_ok first_positions n 3"
  by (auto simp: sample_ok_def first_positions_def list_all_iff)

text \<open>Summaries for the concrete evaluations.\<close>

definition hot_rainy_summary :: summary where
  "hot_rainy_summary =
     map_of [(''weather_main_type'', PStr ''Rain''), (''temp_min'', PStr ''12''),
             (''temp_max'', PStr ''35''), (''max_precip'', PStr ''80'')]"

definition unknown_min_summary :: summary where
  "unknown_min_summary = map_of [(''temp_min'', PStr ''unknown'')]"

section \<open>Narrative generation\<close>



definition default_character_name :: string where
  "default_character_name = ''Eludecia the Succubus Paladin''"

definition default_character_description :: string where
  "default_character_description =
     ''A reformed succubus who has pledged herself to a holy order, constantly balancin'' @
     ''g between her demonic nature and righteous path. She speaks with both seductive '' @
     ''charm and noble virtue when discussing the weather.''"

definition letter_unavailable :: string where
  "letter_unavailable = ''Weather letter unavailable. Error: ''"



text \<open>What \<open>generate_weather_letter\<close> reads from the payload for its prompt.\<close>

record letter_inputs =
  li_city :: pyval
  li_country_code :: pyval
  li_temp :: pyval
  li_feels_like :: pyval
  li_humidity :: pyval
  li_pressure :: pyval
  li_wind_speed :: pyval
  li_wind_direction :: pyval
  li_description :: pyval
  li_clouds :: pyval

text \<open>The user prompt of \<open>generate_weather_letter\<close>.\<close>

definition letter_prompt :: "platform \<Rightarrow> letter_inputs \<Rightarrow> string" where
  "letter_prompt env li =
     [NL] @
     ''    Write a short, entertaining letter (150-200 words) reporting the current wea'' @
     ''ther conditions. Stay in character the entire time.'' @ [NL] @ ''    '' @ [NL] @
     ''    IMPORTANT OUTPUT FORMATTING REQUIREMENTS:'' @ [NL] @
     ''    1. Use PLAIN TEXT ONLY - absolutely NO markdown formatting'' @ [NL] @
     ''    2. DO NOT use asterisks, hashtags, backticks or any other formatting charact'' @
     ''ers'' @ [NL] @
     ''    3. DO NOT include extra spaces or indentation at the beginning of paragraphs'' @
     [NL] @ ''    4. Start directly with your greeting without ANY leading spaces'' @ [NL] @
     ''    5. Do not format text in bold or italic, just use regular text'' @ [NL] @ ''    '' @
     [NL] @ ''    Current weather conditions:'' @ [NL] @ ''    - Location: '' @
     py_str env (li_city li) @ '', '' @ py_str env (li_country_code li) @ [NL] @
     ''    - Temperature: '' @ py_str env (li_temp li) @ [CHR 0xC2, CHR 0xB0] @
     ''C (feels like '' @ py_str env (li_feels_like li) @ [CHR 0xC2, CHR 0xB0] @ ''C)'' @
     [NL] @ ''    - Weather: '' @ py_str env (li_description li) @ [NL] @
     ''    - Humidity: '' @ py_str env (li_humidity li) @ ''%'' @ [NL] @ ''    - Pressure: '' @
     py_str env (li_pressure li) @ '' hPa'' @ [NL] @ ''    - Wind: '' @
     py_str env (li_wind_speed li) @ '' m/s, direction '' @ py_str env (li_wind_direction li) @
     [CHR 0xC2, CHR 0xB0, NL] @ ''    - Cloud coverage: '' @ py_str env (li_clouds li) @
     ''%'' @ [NL] @ ''    '' @ [NL] @
     ''    Write your letter now, addressing the reader directly. Include a greeting an'' @
     ''d sign-off in your character'' @ [CHR 0x27] @ ''s voice.'' @ [NL] @ ''    ''"

subsection \<open>Logging and the text-generation collaborator\<close>

datatype log_record = LogInfo string | LogWarning string | LogError string

text \<open>\<open>str(e)\<close> of an exception.\<close>

definition exc_text :: "platform \<Rightarrow> pyerr \<Rightarrow> string" where
  "exc_text env e = (case e of Raised msg \<Rightarrow> msg | _ \<Rightarrow> builtin_text env e)"

text \<open>
  What a call of the collaborator ends in. Through the OpenAI client: an exception
  (timeout, error status, connection failure), or a response object, of which the code
  reads \<open>choices[0].message.content\<close>; the contents of the choices are kept, \<open>None\<close>
  where the library gives \<open>None\<close>. Through \<open>requests.post\<close>: an exception, or a response
  with its status code, its body text and what \<open>response.json()\<close> gives.
\<close>

datatype chat_result = ChatRaised pyerr | ChatChoices "string option list"

datatype http_result = HttpRaised pyerr | HttpResponse int string "pyerr + pyval"

text \<open>The collaborator, called with the system message and the user prompt.\<close>

record chat_service =
  openai_chat :: "pyval \<Rightarrow> string \<Rightarrow> chat_result"
  http_chat :: "string \<Rightarrow> string \<Rightarrow> http_result"

text \<open>\<open>response.choices[0].message.content\<close>.\<close>

fun first_content :: "string option list \<Rightarrow> pyerr + pyval" where
  "first_content [] = Inl IndexError"
| "first_content (c # cs) = Inr (case c of Some s \<Rightarrow> PStr s | None \<Rightarrow> PNone)"

text \<open>\<open>clean_text(letter)\<close> on whatever the response holds: only a string can be stripped.\<close>

fun py_clean_text :: "pyval \<Rightarrow> pyerr + string" where
  "py_clean_text (PStr s) = Inr (clean_text s)"
| "py_clean_text _ = Inl AttributeError"

subsection \<open>\<open>get_eludecia_response\<close>\<close>







subsection \<open>\<open>generate_weather_letter\<close>\<close>

record character_row =
  character_id :: nat
  character_name :: string
  character_description :: string
  avatar_color :: string

text \<open>\<open>v.get('weather', [{}])[0].get(key, default)\<close> with any default.\<close>

definition first_weather :: "pyval \<Rightarrow> string \<Rightarrow> pyval \<Rightarrow> pyerr + pyval" where
  "first_weather v k d =
     bind_err (py_get v ''weather'' (PList [PDict []])) (\<lambda>w.
     bind_err (py_first w) (\<lambda>w0.
     py_get w0 k d))"

definition read_letter_inputs :: "pyval \<Rightarrow> pyerr + letter_inputs" where
  "read_letter_inputs weather_data =
     bind_err (py_get weather_data ''name'' (PStr ''Unknown City'')) (\<lambda>city.
     bind_err (nested_get weather_data ''sys'' ''country'' (PStr ''Unknown Country''))
       (\<lambda>country_code.
     bind_err (nested_get weather_data ''main'' ''temp'' (PInt 0)) (\<lambda>temp.
     bind_err (nested_get weather_data ''main'' ''feels_like'' (PInt 0)) (\<lambda>feels_like.
     bind_err (nested_get weather_data ''main'' ''humidity'' (PInt 0)) (\<lambda>humidity.
     bind_err (nested_get weather_data ''main'' ''pressure'' (PInt 0)) (\<lambda>pressure.
     bind_err (nested_get weather_data ''wind'' ''speed'' (PInt 0)) (\<lambda>wind_speed.
     bind_err (nested_get weather_data ''wind'' ''deg'' (PInt 0)) (\<lambda>wind_direction.
     bind_err (first_weather weather_data ''description'' (PStr ''unknown weather''))
       (\<lambda>description.
     bind_err (nested_get weather_data ''clouds'' ''all'' (PInt 0)) (\<lambda>clouds.
     Inr \<lparr>li_city = city, li_country_code = country_code, li_temp = temp,
          li_feels_like = feels_like, li_humidity = humidity, li_pressure = pressure,
          li_wind_speed = wind_speed, li_wind_direction = wind_direction,
          li_description = description, li_clouds = clouds\<rparr>))))))))))"

definition system_prompt :: "character_row option \<Rightarrow> string" where
  "system_prompt character =
     (let name = (case character of Some c \<Rightarrow> character_name c
                  | None \<Rightarrow> default_character_name);
          described = (case character of Some c \<Rightarrow> character_description c | None \<Rightarrow> []);
          description = (if described = [] then default_character_description else described)
      in ''You are '' @ name @ ''. '' @ description)"

text \<open>The handler \<open>except Exception as e\<close>: an error record and the text with \<open>str(e)\<close>.\<close>

definition letter_handler :: "platform \<Rightarrow> pyerr \<Rightarrow> string \<times> log_record list" where
  "letter_handler env e =
     (letter_unavailable @ exc_text env e,
      [LogError (''Error generating weather letter: '' @ exc_text env e)])"

text \<open>\<open>result.get('choices', [{}])[0].get('message', {}).get('content', '')\<close>.\<close>

definition json_content :: "pyval \<Rightarrow> pyerr + pyval" where
  "json_content result =
     bind_err (py_get result ''choices'' (PList [PDict []])) (\<lambda>choices.
     bind_err (py_first choices) (\<lambda>choice.
     bind_err (py_get choice ''message'' (PDict [])) (\<lambda>message.
     py_get message ''content'' (PStr []))))"

text \<open>
  The \<open>try\<close> block with its handler, on both branches of \<open>OPENAI_AVAILABLE\<close>: the letter
  and the records logged on the way.
\<close>

definition letter_try ::
  "platform \<Rightarrow> chat_service \<Rightarrow> bool \<Rightarrow> string \<Rightarrow> string \<Rightarrow> string \<times> log_record list" where
  "letter_try env svc openai_available sys_prompt user_prompt =
     (if openai_available
      then (case openai_chat svc (PStr sys_prompt) user_prompt of
              ChatRaised e \<Rightarrow> letter_handler env e
            | ChatChoices choices \<Rightarrow>
                (case bind_err (first_content choices) py_clean_text of
                   Inl e \<Rightarrow> letter_handler env e
                 | Inr letter \<Rightarrow> (letter, [])))
      else (case http_chat svc sys_prompt user_prompt of
              HttpRaised e \<Rightarrow> letter_handler env e
            | HttpResponse status_code body decoded \<Rightarrow>
                (if status_code = 200
                 then (case bind_err (bind_err decoded json_content) py_clean_text of
                         Inl e \<Rightarrow> letter_handler env e
                       | Inr letter \<Rightarrow> (letter, []))
                 else (letter_unavailable @ int_str status_code,
                       [LogError (''API error: '' @ int_str status_code @ '' - '' @ body)]))))"

text \<open>
  The function: what is read from the payload before the \<open>try\<close> can raise to the caller,
  nothing after it can.
\<close>

definition generate_weather_letter ::
  "platform \<Rightarrow> chat_service \<Rightarrow> bool \<Rightarrow> pyval \<Rightarrow> character_row option
     \<Rightarrow> (pyerr + string) \<times> log_record list" where
  "generate_weather_letter env svc openai_available weather_data character =
     (case read_letter_inputs weather_data of
        Inl e \<Rightarrow> (Inl e, [])
      | Inr li \<Rightarrow>
          (let (letter, records) =
                 letter_try env svc openai_available (system_prompt character)
                   (letter_prompt env li)
           in (Inr letter, records)))"


text \<open>A collaborator that answers with one line of text.\<close>

definition greeting_service :: chat_service where
  "greeting_service =
     \<lparr>openai_chat = (\<lambda>sys_prompt user_prompt. ChatChoices [Some ''**Dear** reader'']),
      http_chat = (\<lambda>sys_prompt user_prompt. HttpResponse 200 []
         (Inr (PDict [(''choices'',
            PList [PDict [(''message'', PDict [(''content'', PStr ''**Dear** reader'')])]])])))\<rparr>"

definition snowy_payload :: pyval where
  "snowy_payload =
     PDict [(''name'', PStr ''Oslo''),
            (''weather'', PList [PDict [(''main'', PStr ''Snow''),
                                        (''description'', PStr ''light snow'')]]),
            (''main'', PDict [(''temp'', PInt (- 3))])]"



subsection \<open>Facts about the narrative functions\<close>





lemma letter_try_total:
  "\<exists>letter records. letter_try env svc openai_available sp up = (letter, records)"
  by (cases "letter_try env svc openai_available sp up") simp

section \<open>Storage and the refresh cycle\<close>

text \<open>
  The tables of \<open>weather/models.py\<close>, each a list of rows in the order of insertion. The
  store is taken to accept every write; what a column does to a value of another type is
  left to it. Time is a number, \<open>now\<close>, which \<open>auto_now\<close> and \<open>auto_now_add\<close> write.
\<close>

record city_row =
  city_id :: nat
  city_name :: string
  city_country :: string

record city_character_row =
  cc_id :: nat
  cc_city :: nat
  cc_character :: nat
  cc_weather_letter :: "string option"
  cc_last_updated :: nat
  cc_is_active :: bool

text \<open>The \<open>defaults\<close> of \<open>update_or_create\<close>: the nine weather columns.\<close>

record weather_values =
  wv_temperature :: pyval
  wv_feels_like :: pyval
  wv_humidity :: pyval
  wv_pressure :: pyval
  wv_wind_speed :: pyval
  wv_wind_direction :: pyval
  wv_description :: pyval
  wv_icon :: pyval
  wv_clouds :: pyval

record weather_row =
  wr_id :: nat
  wr_city :: string
  wr_country :: string
  wr_values :: weather_values
  wr_timestamp :: nat
  wr_last_updated :: nat
  wr_character_name :: "string option"
  wr_character_letter :: "string option"

record database =
  cities :: "city_row list"
  characters :: "character_row list"
  city_characters :: "city_character_row list"
  weather_rows :: "weather_row list"

text \<open>
  The settings module is not part of the sources; the three settings the cycle reads are
  parameters.
\<close>

record settings =
  default_cities :: "(string \<times> string) list"
  default_weather_city :: string
  default_weather_country :: string

text \<open>What a cycle works on: the database, and the records logged so far.\<close>

record world =
  db :: database
  log :: "log_record list"

definition fresh_id :: "nat list \<Rightarrow> nat" where
  "fresh_id ids = Suc (fold max ids 0)"

text \<open>The exceptions of \<open>get\<close>: no row, or more than one.\<close>

definition does_not_exist :: "string \<Rightarrow> pyerr" where
  "does_not_exist model = Raised (model @ '' matching query does not exist.'')"

definition multiple_objects :: "string \<Rightarrow> nat \<Rightarrow> pyerr" where
  "multiple_objects model n =
     Raised (''get() returned more than one '' @ model @ '' -- it returned '' @ nat_str n @ ''!'')"

subsection \<open>The queries of \<open>ensure_default_data\<close>\<close>

definition get_or_create_character ::
  "string \<Rightarrow> string \<Rightarrow> string \<Rightarrow> database \<Rightarrow> pyerr + character_row \<times> database" where
  "get_or_create_character name description color d =
     (case filter (\<lambda>c. character_name c = name) (characters d) of
        [] \<Rightarrow>
          (let c = \<lparr>character_id = fresh_id (map character_id (characters d)),
                    character_name = name, character_description = description,
                    avatar_color = color\<rparr>
           in Inr (c, d\<lparr>characters := characters d @ [c]\<rparr>))
      | [c] \<Rightarrow> Inr (c, d)
      | c # c' # cs \<Rightarrow> Inl (multiple_objects ''Character'' (length (c # c' # cs))))"

definition get_character :: "string \<Rightarrow> database \<Rightarrow> pyerr + character_row" where
  "get_character name d =
     (case filter (\<lambda>c. character_name c = name) (characters d) of
        [] \<Rightarrow> Inl (does_not_exist ''Character'')
      | [c] \<Rightarrow> Inr c
      | c # c' # cs \<Rightarrow> Inl (multiple_objects ''Character'' (length (c # c' # cs))))"

definition get_or_create_city ::
  "string \<Rightarrow> string \<Rightarrow> database \<Rightarrow> pyerr + city_row \<times> database" where
  "get_or_create_city name country d =
     (case filter (\<lambda>c. city_name c = name \<and> city_country c = country) (cities d) of
        [] \<Rightarrow>
          (let c = \<lparr>city_id = fresh_id (map city_id (cities d)), city_name = name,
                    city_country = country\<rparr>
           in Inr (c, d\<lparr>cities := cities d @ [c]\<rparr>))
      | [c] \<Rightarrow> Inr (c, d)
      | c # c' # cs \<Rightarrow> Inl (multiple_objects ''City'' (length (c # c' # cs))))"

definition get_or_create_city_character ::
  "nat \<Rightarrow> nat \<Rightarrow> nat \<Rightarrow> database \<Rightarrow> pyerr + city_character_row \<times> database" where
  "get_or_create_city_character city character now d =
     (case filter (\<lambda>r. cc_city r = city \<and> cc_character r = character) (city_characters d) of
        [] \<Rightarrow>
          (let r = \<lparr>cc_id = fresh_id (map cc_id (city_characters d)), cc_city = city,
                    cc_character = character, cc_weather_letter = None,
                    cc_last_updated = now, cc_is_active = True\<rparr>
           in Inr (r, d\<lparr>city_characters := city_characters d @ [r]\<rparr>))
      | [r] \<Rightarrow> Inr (r, d)
      | r # r' # rs \<Rightarrow> Inl (multiple_objects ''CityCharacter'' (length (r # r' # rs))))"

text \<open>
  The loops of \<open>ensure_default_data\<close>. Nothing catches an exception here and every query
  commits on its own, so the result is the exception that escapes, if any, and the
  database as it stands then.
\<close>

fun create_default_cities ::
  "(string \<times> string) list \<Rightarrow> database \<Rightarrow> pyerr option \<times> database" where
  "create_default_cities [] d = (None, d)"
| "create_default_cities ((name, country) # rest) d =
     (case get_or_create_city name country d of
        Inl e \<Rightarrow> (Some e, d)
      | Inr (c, d') \<Rightarrow> create_default_cities rest d')"

fun bind_default_character ::
  "nat \<Rightarrow> nat \<Rightarrow> city_row list \<Rightarrow> database \<Rightarrow> pyerr option \<times> database" where
  "bind_default_character character now [] d = (None, d)"
| "bind_default_character character now (city # rest) d =
     (case get_or_create_city_character (city_id city) character now d of
        Inl e \<Rightarrow> (Some e, d)
      | Inr (r, d') \<Rightarrow> bind_default_character character now rest d')"

definition default_avatar_color :: string where
  "default_avatar_color = ''#800080''"

definition ensure_default_data :: "settings \<Rightarrow> nat \<Rightarrow> database \<Rightarrow> pyerr option \<times> database" where
  "ensure_default_data conf now d =
     (case get_or_create_character default_character_name default_character_description
             default_avatar_color d of
        Inl e \<Rightarrow> (Some e, d)
      | Inr (eludecia, d1) \<Rightarrow>
          (case create_default_cities (default_cities conf) d1 of
             (Some e, d2) \<Rightarrow> (Some e, d2)
           | (None, d2) \<Rightarrow>
               (case get_character default_character_name d2 of
                  Inl e \<Rightarrow> (Some e, d2)
                | Inr default_char \<Rightarrow>
                    bind_default_character (character_id default_char) now (cities d2) d2)))"

subsection \<open>\<open>fetch_weather_data\<close>\<close>

text \<open>
  The weather API is a parameter: for the query \<open>city,country\<close> it gives the decoded
  payload, or the \<open>RequestException\<close> that \<open>requests.get\<close> or \<open>raise_for_status\<close>
  raises (no connection, a timeout, a 404 for an unknown city, a 5xx). The function
  catches the exception, logs it and returns \<open>None\<close>.
\<close>

type_synonym weather_api = "string \<Rightarrow> pyerr + pyval"

definition fetch_weather_data ::
  "platform \<Rightarrow> settings \<Rightarrow> weather_api \<Rightarrow> string \<Rightarrow> string \<Rightarrow> pyval \<times> log_record list" where
  "fetch_weather_data env conf api city country =
     (let city' = (if city = [] then default_weather_city conf else city);
          country' = (if country = [] then default_weather_country conf else country)
      in case api (city' @ '','' @ country') of
           Inr payload \<Rightarrow> (payload, [])
         | Inl e \<Rightarrow> (PNone, [LogError (''Error fetching weather data: '' @ exc_text env e)]))"

subsection \<open>\<open>update_city_weather\<close>\<close>

text \<open>The \<open>defaults\<close> dict, read from the payload.\<close>

definition snapshot_values :: "pyval \<Rightarrow> pyerr + weather_values" where
  "snapshot_values weather_data =
     bind_err (nested_get weather_data ''main'' ''temp'' PNone) (\<lambda>temperature.
     bind_err (nested_get weather_data ''main'' ''feels_like'' PNone) (\<lambda>feels_like.
     bind_err (nested_get weather_data ''main'' ''humidity'' PNone) (\<lambda>humidity.
     bind_err (nested_get weather_data ''main'' ''pressure'' PNone) (\<lambda>pressure.
     bind_err (nested_get weather_data ''wind'' ''speed'' PNone) (\<lambda>wind_speed.
     bind_err (nested_get weather_data ''wind'' ''deg'' PNone) (\<lambda>wind_direction.
     bind_err (first_weather weather_data ''description'' PNone) (\<lambda>description.
     bind_err (first_weather weather_data ''icon'' PNone) (\<lambda>icon.
     bind_err (nested_get weather_data ''clouds'' ''all'' PNone) (\<lambda>clouds.
     Inr \<lparr>wv_temperature = temperature, wv_feels_like = feels_like,
          wv_humidity = humidity, wv_pressure = pressure, wv_wind_speed = wind_speed,
          wv_wind_direction = wind_direction, wv_description = description,
          wv_icon = icon, wv_clouds = clouds\<rparr>)))))))))"

text \<open>
  \<open>Weather_current.objects.update_or_create(city=..., country=..., defaults=...)\<close>: with
  no row of that city and country a row is created, with one row its weather columns
  and \<open>last_updated\<close> are written, with more than one \<open>get\<close> raises. The result is the
  row, the flag \<open>created\<close> and the new database.
\<close>

definition update_or_create_weather ::
  "string \<Rightarrow> string \<Rightarrow> weather_values \<Rightarrow> nat \<Rightarrow> database
     \<Rightarrow> pyerr + weather_row \<times> bool \<times> database" where
  "update_or_create_weather city country vals now d =
     (case filter (\<lambda>r. wr_city r = city \<and> wr_country r = country) (weather_rows d) of
        [] \<Rightarrow>
          (let r = \<lparr>wr_id = fresh_id (map wr_id (weather_rows d)), wr_city = city,
                    wr_country = country, wr_values = vals, wr_timestamp = now,
                    wr_last_updated = now, wr_character_name = None,
                    wr_character_letter = None\<rparr>
           in Inr (r, True, d\<lparr>weather_rows := weather_rows d @ [r]\<rparr>))
      | [r] \<Rightarrow>
          (let r' = r\<lparr>wr_values := vals, wr_last_updated := now\<rparr>
           in Inr (r', False,
                   d\<lparr>weather_rows :=
                        map (\<lambda>x. if wr_city x = city \<and> wr_country x = country then r' else x)
                          (weather_rows d)\<rparr>))
      | r # r' # rs \<Rightarrow> Inl (multiple_objects ''Weather_current'' (length (r # r' # rs))))"

text \<open>\<open>city_char.character\<close>: the row the foreign key points to.\<close>

definition character_of :: "city_character_row \<Rightarrow> database \<Rightarrow> pyerr + character_row" where
  "character_of r d =
     (case find (\<lambda>c. character_id c = cc_character r) (characters d) of
        Some c \<Rightarrow> Inr c
      | None \<Rightarrow> Inl (does_not_exist ''Character''))"

text \<open>\<open>city_char.save(update_fields=['weather_letter', 'last_updated'])\<close>: the row with
  the primary key of \<open>city_char\<close> gets the letter and the time.\<close>

definition save_letter :: "city_character_row \<Rightarrow> string \<Rightarrow> nat \<Rightarrow> database \<Rightarrow> database" where
  "save_letter r letter now d =
     d\<lparr>city_characters :=
         map (\<lambda>x. if cc_id x = cc_id r
                  then x\<lparr>cc_weather_letter := Some letter, cc_last_updated := now\<rparr>
                  else x)
           (city_characters d)\<rparr>"

text \<open>The loop \<open>for city_char in city_characters\<close>, with the records that
  \<open>generate_weather_letter\<close> logs.\<close>

fun write_letters ::
  "platform \<Rightarrow> chat_service \<Rightarrow> bool \<Rightarrow> nat \<Rightarrow> pyval \<Rightarrow> city_character_row list \<Rightarrow> database
     \<Rightarrow> (pyerr + database) \<times> log_record list" where
  "write_letters env svc oa now weather_data [] d = (Inr d, [])"
| "write_letters env svc oa now weather_data (r # rs) d =
     (case character_of r d of
        Inl e \<Rightarrow> (Inl e, [])
      | Inr character \<Rightarrow>
          (case generate_weather_letter env svc oa weather_data (Some character) of
             (Inl e, records) \<Rightarrow> (Inl e, records)
           | (Inr letter, records) \<Rightarrow>
               (case write_letters env svc oa now weather_data rs (save_letter r letter now d) of
                  (result, later) \<Rightarrow> (result, records @ later))))"

text \<open>The body of \<open>with transaction.atomic()\<close>.\<close>

definition refresh_transaction ::
  "platform \<Rightarrow> chat_service \<Rightarrow> bool \<Rightarrow> nat \<Rightarrow> city_row \<Rightarrow> pyval \<Rightarrow> database
     \<Rightarrow> (pyerr + database) \<times> log_record list" where
  "refresh_transaction env svc oa now city_obj weather_data d =
     (case snapshot_values weather_data of
        Inl e \<Rightarrow> (Inl e, [])
      | Inr vals \<Rightarrow>
          (case update_or_create_weather (city_name city_obj) (city_country city_obj) vals
                  now d of
             Inl e \<Rightarrow> (Inl e, [])
           | Inr (weather_obj, created, d1) \<Rightarrow>
               (case write_letters env svc oa now weather_data
                       (filter (\<lambda>r. cc_city r = city_id city_obj \<and> cc_is_active r)
                          (city_characters d1)) d1 of
                  (Inl e, records) \<Rightarrow> (Inl e, records)
                | (Inr d2, records) \<Rightarrow>
                    (Inr d2,
                     records @
                     [LogInfo ((if created then ''Created'' else ''Updated'')
                        @ '' weather data for '' @ wr_city weather_obj @ '', ''
                        @ wr_country weather_obj)]))))"

text \<open>
  The function. A failed fetch leaves after two error records. An exception in the
  transaction rolls the database back to where it was and is logged; the records logged
  inside stay.
\<close>

definition update_city_weather ::
  "platform \<Rightarrow> settings \<Rightarrow> weather_api \<Rightarrow> chat_service \<Rightarrow> bool \<Rightarrow> nat \<Rightarrow> city_row \<Rightarrow> world
     \<Rightarrow> world" where
  "update_city_weather env conf api svc oa now city_obj w =
     (let started = log w @ [LogInfo (''Updating weather data for '' @ city_name city_obj
                                      @ '', '' @ city_country city_obj)];
          (weather_data, fetched) =
            fetch_weather_data env conf api (city_name city_obj) (city_country city_obj)
      in if \<not> truthy weather_data
         then w\<lparr>log := started @ fetched
                   @ [LogError (''Failed to fetch weather data for '' @ city_name city_obj)]\<rparr>
         else (case refresh_transaction env svc oa now city_obj weather_data (db w) of
                 (Inr d', records) \<Rightarrow> \<lparr>db = d', log = started @ fetched @ records\<rparr>
               | (Inl e, records) \<Rightarrow>
                   w\<lparr>log := started @ fetched @ records
                       @ [LogError (''Error updating weather data for '' @ city_name city_obj
                                    @ '': '' @ exc_text env e)]\<rparr>))"

subsection \<open>\<open>update_weather_data\<close>\<close>

text \<open>The loop \<open>for city in cities\<close>.\<close>

fun update_cities ::
  "platform \<Rightarrow> settings \<Rightarrow> weather_api \<Rightarrow> chat_service \<Rightarrow> bool \<Rightarrow> nat \<Rightarrow> city_row list
     \<Rightarrow> world \<Rightarrow> world" where
  "update_cities env conf api svc oa now [] w = w"
| "update_cities env conf api svc oa now (city # rest) w =
     update_cities env conf api svc oa now rest
       (update_city_weather env conf api svc oa now city w)"

text \<open>\<open>City.objects.filter(citycharacter__is_active=True).distinct()\<close>.\<close>

definition active_cities :: "database \<Rightarrow> city_row list" where
  "active_cities d =
     filter (\<lambda>c. list_ex (\<lambda>r. cc_city r = city_id c \<and> cc_is_active r) (city_characters d))
       (cities d)"

text \<open>
  The cycle returns nothing; the result here is the exception that escapes it, if any
  (only the queries outside \<open>update_city_weather\<close> can raise one), and the world it
  leaves.
\<close>

definition update_weather_data ::
  "platform \<Rightarrow> settings \<Rightarrow> weather_api \<Rightarrow> chat_service \<Rightarrow> bool \<Rightarrow> nat \<Rightarrow> world
     \<Rightarrow> pyerr option \<times> world" where
  "update_weather_data env conf api svc oa now w =
     (let started = log w @ [LogInfo ''Running scheduled weather data update''] in
      case ensure_default_data conf now (db w) of
        (Some e, d1) \<Rightarrow> (Some e, \<lparr>db = d1, log = started\<rparr>)
      | (None, d1) \<Rightarrow>
          (if active_cities d1 = []
           then (case get_or_create_city (default_weather_city conf)
                        (default_weather_country conf) d1 of
                   Inl e \<Rightarrow> (Some e, \<lparr>db = d1, log = started\<rparr>)
                 | Inr (default_city, d2) \<Rightarrow>
                     (None, update_cities env conf api svc oa now [default_city]
                              \<lparr>db = d2, log = started\<rparr>))
           else (None, update_cities env conf api svc oa now (active_cities d1)
                         \<lparr>db = d1, log = started\<rparr>)))"

subsection \<open>Facts about the snapshot table\<close>

text \<open>The identity of a location, on a snapshot row and on a city row.\<close>

definition snapshot_key :: "weather_row \<Rightarrow> string \<times> string" where
  "snapshot_key r = (wr_city r, wr_country r)"

definition city_key :: "city_row \<Rightarrow> string \<times> string" where
  "city_key c = (city_name c, city_country c)"

definition snapshot_keys :: "database \<Rightarrow> (string \<times> string) list" where
  "snapshot_keys d = map snapshot_key (weather_rows d)"

lemma filter_key_empty:
  "filter (\<lambda>r. wr_city r = n \<and> wr_country r = c) rows = []
   \<Longrightarrow> (n, c) \<notin> set (map snapshot_key rows)"
  by (auto simp: filter_empty_conv snapshot_key_def)

lemma filter_key_nonempty:
  "filter (\<lambda>r. wr_city r = n \<and> wr_country r = c) rows = r # rs
   \<Longrightarrow> (n, c) \<in> set (map snapshot_key rows) \<and> wr_city r = n \<and> wr_country r = c"
proof -
  assume a: "filter (\<lambda>r. wr_city r = n \<and> wr_country r = c) rows = r # rs"
  then have "r \<in> set (filter (\<lambda>r. wr_city r = n \<and> wr_country r = c) rows)" by simp
  then have "r \<in> set rows" "wr_city r = n" "wr_country r = c" by auto
  then show ?thesis by (force simp: snapshot_key_def)
qed

text \<open>\<open>update_or_create\<close> adds a row only for a location that has none.\<close>

lemma update_or_create_weather_keys:
  assumes "update_or_create_weather n c vals now d = Inr (row, created, d')"
  shows "cities d' = cities d \<and> characters d' = characters d
    \<and> city_characters d' = city_characters d
    \<and> snapshot_keys d' = (if (n, c) \<in> set (snapshot_keys d) then snapshot_keys d
                          else snapshot_keys d @ [(n, c)])"
proof (cases "filter (\<lambda>r. wr_city r = n \<and> wr_country r = c) (weather_rows d)")
  case Nil
  with assms filter_key_empty [OF Nil] show ?thesis
    by (auto simp: update_or_create_weather_def snapshot_keys_def snapshot_key_def Let_def)
next
  case (Cons r rs)
  note found = filter_key_nonempty [OF Cons]
  show ?thesis
  proof (cases rs)
    case Nil
    with assms Cons have d': "d' = d\<lparr>weather_rows :=
        map (\<lambda>x. if wr_city x = n \<and> wr_country x = c
                 then r\<lparr>wr_values := vals, wr_last_updated := now\<rparr> else x)
          (weather_rows d)\<rparr>"
      by (simp add: update_or_create_weather_def Let_def)
    have "map snapshot_key (map (\<lambda>x. if wr_city x = n \<and> wr_country x = c
                 then r\<lparr>wr_values := vals, wr_last_updated := now\<rparr> else x)
          (weather_rows d)) = map snapshot_key (weather_rows d)"
      using found by (auto simp: snapshot_key_def)
    with d' found show ?thesis
      by (simp add: snapshot_keys_def)
  next
    case (Cons r' rs')
    with assms \<open>filter _ _ = r # rs\<close> show ?thesis
      by (simp add: update_or_create_weather_def)
  qed
qed

lemma save_letter_keeps:
  "weather_rows (save_letter r letter now d) = weather_rows d"
  "cities (save_letter r letter now d) = cities d"
  "characters (save_letter r letter now d) = characters d"
  by (simp_all add: save_letter_def)

lemma write_letters_keeps:
  "write_letters env svc oa now wd rs d = (Inr d', records)
   \<Longrightarrow> weather_rows d' = weather_rows d \<and> cities d' = cities d
       \<and> characters d' = characters d"
proof (induction rs arbitrary: d records)
  case Nil
  then show ?case by simp
next
  case (Cons r rs)
  from Cons.prems obtain ch letter recs later where
    "write_letters env svc oa now wd rs (save_letter r letter now d) = (Inr d', later)"
    by (auto split: sum.splits prod.splits)
  from Cons.IH [OF this] show ?case
    by (simp add: save_letter_keeps)
qed

lemma refresh_transaction_keys:
  assumes "refresh_transaction env svc oa now c wd d = (Inr d', records)"
  shows "cities d' = cities d
    \<and> snapshot_keys d' = (if city_key c \<in> set (snapshot_keys d) then snapshot_keys d
                          else snapshot_keys d @ [city_key c])"
proof -
  from assms obtain vals row created d1 recs where
    u: "update_or_create_weather (city_name c) (city_country c) vals now d
          = Inr (row, created, d1)"
    and l: "write_letters env svc oa now wd
              (filter (\<lambda>r. cc_city r = city_id c \<and> cc_is_active r) (city_characters d1)) d1
            = (Inr d', recs)"
    by (auto simp: refresh_transaction_def split: sum.splits prod.splits)
  from write_letters_keeps [OF l] have "weather_rows d' = weather_rows d1"
    "cities d' = cities d1" by simp_all
  with update_or_create_weather_keys [OF u] show ?thesis
    by (simp add: snapshot_keys_def city_key_def)
qed

text \<open>One location's update: the snapshot table keeps its keys, or gains the key of a
  location that had no row. The city table is not written.\<close>

lemma update_city_weather_keys:
  "cities (db (update_city_weather env conf api svc oa now c w)) = cities (db w)
   \<and> snapshot_keys (db (update_city_weather env conf api svc oa now c w))
       = (if city_key c \<in> set (snapshot_keys (db w))
            \<or> weather_rows (db (update_city_weather env conf api svc oa now c w))
                = weather_rows (db w)
          then snapshot_keys (db w)
          else snapshot_keys (db w) @ [city_key c])"
proof -
  obtain wd fetched where f:
    "fetch_weather_data env conf api (city_name c) (city_country c) = (wd, fetched)"
    by (cases "fetch_weather_data env conf api (city_name c) (city_country c)")
  show ?thesis
  proof (cases "truthy wd")
    case False
    with f show ?thesis
      by (simp add: update_city_weather_def snapshot_keys_def)
  next
    case True
    obtain result records where t:
      "refresh_transaction env svc oa now c wd (db w) = (result, records)"
      by (cases "refresh_transaction env svc oa now c wd (db w)")
    show ?thesis
    proof (cases result)
      case (Inl e)
      with f True t show ?thesis
        by (simp add: update_city_weather_def snapshot_keys_def)
    next
      case (Inr d')
      with t have "refresh_transaction env svc oa now c wd (db w) = (Inr d', records)"
        by simp
      from refresh_transaction_keys [OF this] f True t Inr show ?thesis
        by (auto simp: update_city_weather_def snapshot_keys_def)
    qed
  qed
qed

lemma update_city_weather_tracked:
  assumes "city_key c \<in> set (snapshot_keys (db w))"
  shows "snapshot_keys (db (update_city_weather env conf api svc oa now c w))
           = snapshot_keys (db w)"
  using update_city_weather_keys [of env conf api svc oa now c w] assms by simp

lemma update_city_weather_distinct:
  assumes "distinct (snapshot_keys (db w))"
  shows "distinct (snapshot_keys (db (update_city_weather env conf api svc oa now c w)))"
  using update_city_weather_keys [of env conf api svc oa now c w] assms
  by (auto split: if_splits)

lemma update_city_weather_keeps_keys:
  "set (snapshot_keys (db w))
     \<subseteq> set (snapshot_keys (db (update_city_weather env conf api svc oa now c w)))"
  using update_city_weather_keys [of env conf api svc oa now c w]
  by (auto split: if_splits)

lemma update_cities_tracked:
  "\<forall>c \<in> set cs. city_key c \<in> set (snapshot_keys (db w))
   \<Longrightarrow> snapshot_keys (db (update_cities env conf api svc oa now cs w)) = snapshot_keys (db w)"
proof (induction cs arbitrary: w)
  case Nil
  then show ?case by simp
next
  case (Cons c cs)
  let ?w1 = "update_city_weather env conf api svc oa now c w"
  from Cons.prems have same: "snapshot_keys (db ?w1) = snapshot_keys (db w)"
    by (simp add: update_city_weather_tracked)
  with Cons.prems have "\<forall>c \<in> set cs. city_key c \<in> set (snapshot_keys (db ?w1))"
    by simp
  from Cons.IH [OF this] same show ?case by simp
qed

lemma update_cities_distinct:
  "distinct (snapshot_keys (db w))
   \<Longrightarrow> distinct (snapshot_keys (db (update_cities env conf api svc oa now cs w)))"
  by (induction cs arbitrary: w) (simp_all add: update_city_weather_distinct)

lemma update_cities_cities:
  "cities (db (update_cities env conf api svc oa now cs w)) = cities (db w)"
  by (induction cs arbitrary: w) (simp_all add: update_city_weather_keys)

subsection \<open>Facts about \<open>ensure_default_data\<close>\<close>

lemma get_or_create_city_effect:
  assumes "get_or_create_city n c d = Inr (city, d')"
  shows "weather_rows d' = weather_rows d \<and> city_key city = (n, c)
    \<and> set (map city_key (cities d')) \<subseteq> insert (n, c) (set (map city_key (cities d)))"
proof (cases "filter (\<lambda>x. city_name x = n \<and> city_country x = c) (cities d)")
  case Nil
  with assms show ?thesis
    by (auto simp: get_or_create_city_def city_key_def Let_def)
next
  case (Cons x xs)
  then have "x \<in> set (filter (\<lambda>x. city_name x = n \<and> city_country x = c) (cities d))"
    by simp
  then have x: "city_name x = n" "city_country x = c" by auto
  from assms Cons have "xs = []" "city = x" "d' = d"
    by (auto simp: get_or_create_city_def split: list.splits)
  with x show ?thesis
    by (auto simp: city_key_def)
qed

lemma create_default_cities_effect:
  "create_default_cities defaults d = (e, d')
   \<Longrightarrow> weather_rows d' = weather_rows d
       \<and> set (map city_key (cities d')) \<subseteq> set defaults \<union> set (map city_key (cities d))"
proof (induction defaults arbitrary: d)
  case Nil
  then show ?case by simp
next
  case (Cons p defaults)
  obtain n c where p: "p = (n, c)" by (cases p)
  show ?case
  proof (cases "get_or_create_city n c d")
    case (Inl err)
    with Cons.prems p show ?thesis by auto
  next
    case (Inr r)
    obtain city d1 where r: "r = (city, d1)" by (cases r)
    with Inr Cons.prems p have rest: "create_default_cities defaults d1 = (e, d')"
      by simp
    from get_or_create_city_effect Inr r have
      a: "weather_rows d1 = weather_rows d"
      and b: "set (map city_key (cities d1)) \<subseteq> insert (n, c) (set (map city_key (cities d)))"
      by blast+
    from Cons.IH [OF rest] have
      a': "weather_rows d' = weather_rows d1"
      and b': "set (map city_key (cities d')) \<subseteq> set defaults \<union> set (map city_key (cities d1))"
      by blast+
    have "set (p # defaults) = insert (n, c) (set defaults)" by (simp add: p)
    with b b' have "set (map city_key (cities d'))
        \<subseteq> set (p # defaults) \<union> set (map city_key (cities d))"
      by blast
    with a a' show ?thesis by simp
  qed
qed

lemma get_or_create_city_character_effect:
  assumes "get_or_create_city_character city ch now d = Inr (r, d')"
  shows "weather_rows d' = weather_rows d \<and> cities d' = cities d"
  using assms
  by (auto simp: get_or_create_city_character_def Let_def split: list.splits)

lemma bind_default_character_effect:
  "bind_default_character ch now cs d = (e, d')
   \<Longrightarrow> weather_rows d' = weather_rows d \<and> cities d' = cities d"
proof (induction cs arbitrary: d)
  case Nil
  then show ?case by simp
next
  case (Cons c cs)
  show ?case
  proof (cases "get_or_create_city_character (city_id c) ch now d")
    case (Inl err)
    with Cons.prems show ?thesis by simp
  next
    case (Inr r)
    obtain row d1 where r: "r = (row, d1)" by (cases r)
    with Inr Cons.prems have "bind_default_character ch now cs d1 = (e, d')" by simp
    from Cons.IH [OF this] get_or_create_city_character_effect Inr r show ?thesis
      by metis
  qed
qed

lemma get_or_create_character_effect:
  assumes "get_or_create_character n descr color d = Inr (ch, d')"
  shows "weather_rows d' = weather_rows d \<and> cities d' = cities d"
  using assms by (auto simp: get_or_create_character_def Let_def split: list.splits)

lemma ensure_default_data_effect:
  assumes "ensure_default_data conf now d = (e, d')"
  shows "weather_rows d' = weather_rows d
    \<and> set (map city_key (cities d')) \<subseteq> set (default_cities conf) \<union> set (map city_key (cities d))"
proof (cases "get_or_create_character default_character_name default_character_description
                default_avatar_color d")
  case (Inl err)
  with assms show ?thesis by (auto simp: ensure_default_data_def)
next
  case (Inr r)
  obtain ch d1 where r: "r = (ch, d1)" by (cases r)
  from get_or_create_character_effect Inr r have d1:
    "weather_rows d1 = weather_rows d" "cities d1 = cities d" by blast+
  obtain e2 d2 where c: "create_default_cities (default_cities conf) d1 = (e2, d2)"
    by (cases "create_default_cities (default_cities conf) d1")
  from create_default_cities_effect [OF c] d1 have d2:
    "weather_rows d2 = weather_rows d"
    "set (map city_key (cities d2)) \<subseteq> set (default_cities conf) \<union> set (map city_key (cities d))"
    by simp_all
  show ?thesis
  proof (cases e2)
    case (Some err)
    with assms Inr r c d2 show ?thesis by (simp add: ensure_default_data_def)
  next
    case None
    show ?thesis
    proof (cases "get_character default_character_name d2")
      case (Inl err)
      with assms Inr r c None d2 show ?thesis by (simp add: ensure_default_data_def)
    next
      case (Inr dc)
      with assms \<open>get_or_create_character _ _ _ d = Inr r\<close> r c None
      have "bind_default_character (character_id dc) now (cities d2) d2 = (e, d')"
        by (simp add: ensure_default_data_def)
      from bind_default_character_effect [OF this] d2 show ?thesis by simp
    qed
  qed
qed

subsection \<open>Facts about the cycle\<close>

text \<open>
  Every location the cycle can reach is tracked: each city row, each default city and
  the default weather city has a snapshot row.
\<close>

definition locations_tracked :: "settings \<Rightarrow> database \<Rightarrow> bool" where
  "locations_tracked conf d \<longleftrightarrow>
     list_all (\<lambda>c. city_key c \<in> set (snapshot_keys d)) (cities d)
     \<and> list_all (\<lambda>k. k \<in> set (snapshot_keys d)) (default_cities conf)
     \<and> (default_weather_city conf, default_weather_country conf) \<in> set (snapshot_keys d)"

lemma active_cities_subset: "set (active_cities d) \<subseteq> set (cities d)"
  by (auto simp: active_cities_def)

lemma update_weather_data_distinct:
  assumes "distinct (snapshot_keys (db w))"
  shows "distinct (snapshot_keys (db (snd (update_weather_data env conf api svc oa now w))))"
proof -
  obtain e d1 where en: "ensure_default_data conf now (db w) = (e, d1)"
    by (cases "ensure_default_data conf now (db w)")
  from ensure_default_data_effect [OF en] assms have d1: "distinct (snapshot_keys d1)"
    by (simp add: snapshot_keys_def)
  show ?thesis
  proof (cases e)
    case (Some err)
    with en d1 show ?thesis by (simp add: update_weather_data_def)
  next
    case None
    show ?thesis
    proof (cases "active_cities d1 = []")
      case False
      with en None d1 show ?thesis
        by (simp add: update_weather_data_def update_cities_distinct)
    next
      case True
      show ?thesis
      proof (cases "get_or_create_city (default_weather_city conf)
                      (default_weather_country conf) d1")
        case (Inl err)
        with en None True d1 show ?thesis by (simp add: update_weather_data_def)
      next
        case (Inr r)
        obtain city d2 where r: "r = (city, d2)" by (cases r)
        from get_or_create_city_effect Inr r have "weather_rows d2 = weather_rows d1"
          by blast
        with d1 have "distinct (snapshot_keys d2)" by (simp add: snapshot_keys_def)
        then have "distinct (snapshot_keys (db (update_city_weather env conf api svc oa now city
            \<lparr>db = d2, log = log w @ [LogInfo ''Running scheduled weather data update'']\<rparr>)))"
          by (intro update_city_weather_distinct) simp
        with en None True Inr r show ?thesis
          by (simp add: update_weather_data_def)
      qed
    qed
  qed
qed

lemma update_weather_data_tracked:
  assumes "locations_tracked conf (db w)"
  shows "snapshot_keys (db (snd (update_weather_data env conf api svc oa now w)))
           = snapshot_keys (db w)
    \<and> locations_tracked conf (db (snd (update_weather_data env conf api svc oa now w)))"
proof -
  let ?K = "set (snapshot_keys (db w))"
  from assms have
    tc: "\<forall>c \<in> set (cities (db w)). city_key c \<in> ?K"
    and td: "set (default_cities conf) \<subseteq> ?K"
    and tw: "(default_weather_city conf, default_weather_country conf) \<in> ?K"
    by (auto simp: locations_tracked_def list_all_iff)
  obtain e d1 where en: "ensure_default_data conf now (db w) = (e, d1)"
    by (cases "ensure_default_data conf now (db w)")
  from ensure_default_data_effect [OF en] have
    k1: "snapshot_keys d1 = snapshot_keys (db w)"
    and c0: "set (map city_key (cities d1))
               \<subseteq> set (default_cities conf) \<union> set (map city_key (cities (db w)))"
    by (simp_all add: snapshot_keys_def)
  from tc have "set (map city_key (cities (db w))) \<subseteq> ?K" by auto
  with c0 td have c1: "set (map city_key (cities d1)) \<subseteq> ?K" by blast
  have goal: "snapshot_keys d' = snapshot_keys (db w) \<and> locations_tracked conf d'"
    if "snapshot_keys d' = snapshot_keys (db w)" and "set (map city_key (cities d')) \<subseteq> ?K"
    for d'
    using that td tw by (auto simp: locations_tracked_def list_all_iff)
  let ?start = "log w @ [LogInfo ''Running scheduled weather data update'']"
  show ?thesis
  proof (cases e)
    case (Some err)
    with en have "db (snd (update_weather_data env conf api svc oa now w)) = d1"
      by (simp add: update_weather_data_def)
    with goal [OF k1 c1] show ?thesis by simp
  next
    case None
    show ?thesis
    proof (cases "active_cities d1 = []")
      case False
      let ?w' = "update_cities env conf api svc oa now (active_cities d1) \<lparr>db = d1, log = ?start\<rparr>"
      from en None False have r: "snd (update_weather_data env conf api svc oa now w) = ?w'"
        by (simp add: update_weather_data_def)
      have "\<forall>c \<in> set (active_cities d1). city_key c \<in> set (snapshot_keys (db \<lparr>db = d1, log = ?start\<rparr>))"
        using c1 k1 active_cities_subset [of d1] by auto
      from update_cities_tracked [OF this] k1
      have "snapshot_keys (db ?w') = snapshot_keys (db w)" by simp
      moreover have "cities (db ?w') = cities d1"
        by (simp add: update_cities_cities)
      ultimately show ?thesis
        using goal [of "db ?w'"] c1 r by simp
    next
      case True
      show ?thesis
      proof (cases "get_or_create_city (default_weather_city conf)
                      (default_weather_country conf) d1")
        case (Inl err)
        with en None True have "db (snd (update_weather_data env conf api svc oa now w)) = d1"
          by (simp add: update_weather_data_def)
        with goal [OF k1 c1] show ?thesis by simp
      next
        case (Inr r)
        obtain city d2 where r: "r = (city, d2)" by (cases r)
        from get_or_create_city_effect Inr r have
          w2: "weather_rows d2 = weather_rows d1"
          and ck: "city_key city = (default_weather_city conf, default_weather_country conf)"
          and c2: "set (map city_key (cities d2))
                     \<subseteq> insert (default_weather_city conf, default_weather_country conf)
                         (set (map city_key (cities d1)))"
          by blast+
        let ?w' = "update_cities env conf api svc oa now [city] \<lparr>db = d2, log = ?start\<rparr>"
        from en None True Inr r
        have res: "snd (update_weather_data env conf api svc oa now w) = ?w'"
          by (simp add: update_weather_data_def)
        from w2 k1 have k2: "snapshot_keys d2 = snapshot_keys (db w)"
          by (simp add: snapshot_keys_def)
        with ck tw have "\<forall>c \<in> set [city]. city_key c \<in> set (snapshot_keys (db \<lparr>db = d2, log = ?start\<rparr>))"
          by simp
        from update_cities_tracked [OF this] k2
        have "snapshot_keys (db ?w') = snapshot_keys (db w)" by simp
        moreover have "cities (db ?w') = cities d2"
          by (simp only: update_cities_cities) simp
        moreover from c2 c1 tw have "set (map city_key (cities d2)) \<subseteq> ?K" by auto
        ultimately show ?thesis
          using goal [of "db ?w'"] res by simp
      qed
    qed
  qed
qed

subsection \<open>Facts about one location's update\<close>













subsection \<open>A world with two locations\<close>

definition oslo :: city_row where
  "oslo = \<lparr>city_id = 1, city_name = ''Oslo'', city_country = ''NO''\<rparr>"

definition atlantis :: city_row where
  "atlantis = \<lparr>city_id = 2, city_name = ''Atlantis'', city_country = ''XX''\<rparr>"

definition eludecia :: character_row where
  "eludecia =
     \<lparr>character_id = 1, character_name = default_character_name,
      character_description = default_character_description,
      avatar_color = default_avatar_color\<rparr>"

definition oslo_binding :: city_character_row where
  "oslo_binding =
     \<lparr>cc_id = 1, cc_city = 1, cc_character = 1, cc_weather_letter = Some ''Old letter'',
      cc_last_updated = 5, cc_is_active = True\<rparr>"

definition atlantis_binding :: city_character_row where
  "atlantis_binding =
     \<lparr>cc_id = 2, cc_city = 2, cc_character = 1, cc_weather_letter = Some ''Older letter'',
      cc_last_updated = 3, cc_is_active = True\<rparr>"

definition no_values :: weather_values where
  "no_values =
     \<lparr>wv_temperature = PNone, wv_feels_like = PNone, wv_humidity = PNone,
      wv_pressure = PNone, wv_wind_speed = PNone, wv_wind_direction = PNone,
      wv_description = PNone, wv_icon = PNone, wv_clouds = PNone\<rparr>"

definition oslo_snapshot :: weather_row where
  "oslo_snapshot =
     \<lparr>wr_id = 1, wr_city = ''Oslo'', wr_country = ''NO'', wr_values = no_values,
      wr_timestamp = 5, wr_last_updated = 5, wr_character_name = None,
      wr_character_letter = None\<rparr>"

definition atlantis_snapshot :: weather_row where
  "atlantis_snapshot =
     \<lparr>wr_id = 2, wr_city = ''Atlantis'', wr_country = ''XX'', wr_values = no_values,
      wr_timestamp = 3, wr_last_updated = 3, wr_character_name = None,
      wr_character_letter = None\<rparr>"

definition two_locations :: world where
  "two_locations =
     \<lparr>db = \<lparr>cities = [atlantis, oslo], characters = [eludecia],
            city_characters = [oslo_binding, atlantis_binding],
            weather_rows = [oslo_snapshot, atlantis_snapshot]\<rparr>,
      log = []\<rparr>"

definition north_settings :: settings where
  "north_settings =
     \<lparr>default_cities = [(''Oslo'', ''NO'')], default_weather_city = ''Oslo'',
      default_weather_country = ''NO''\<rparr>"

text \<open>A weather API that knows Oslo and answers 404 for every other query.\<close>

definition north_api :: weather_api where
  "north_api q =
     (if q = ''Oslo,NO'' then Inr snowy_payload
      else Inl (Raised ''404 Client Error: Not Found''))"

section \<open>The claims\<close>

text \<open>
  C1. The aggregation functions are meant to degrade a missing nested field to an
  "Unknown" marker. \<open>handle_weather_data\<close> does not: on a payload without \<open>visibility\<close>
  it divides the marker \<open>'Unknown'\<close> by 1000 and raises \<open>TypeError\<close>, on every platform.
  \<open>process_forecast_data\<close> guards the same division with \<open>'visibility' in current\<close>.
\<close>

theorem handle_weather_data_without_visibility:
  "handle_weather_data env no_visibility_payload = Inl TypeError"
  by (simp add: handle_weather_data_def no_visibility_payload_def nested_get_def
      nested_item_def weather_field_def py_div_1000_def)

lemma process_forecast_data_without_visibility:
  "summary_field (process_forecast_data utc_platform no_visibility_forecast)
     ''weather_visibility'' = Some (PStr ''Unknown km'')"
  by code_simp

text \<open>
  C2 (as the code has it). When the first daily entry has \<open>temp.min\<close> and \<open>temp.max\<close>, the
  summary's \<open>temp_min\<close> and \<open>temp_max\<close> are these two values as text. When a non-empty
  payload has no daily entry, they are the texts \<open>100\<close> and \<open>-100\<close>, the values the
  variables start with. An empty payload gives the empty summary.
\<close>

theorem temp_min_max_of_first_daily_entry:
  assumes "process_forecast_data env (PDict kvs) = Inr s"
  shows "(map_of kvs ''daily'' = Some (PList (PDict today # rest)) \<longrightarrow>
          map_of today ''temp'' = Some (PDict temp) \<longrightarrow>
          map_of temp ''min'' = Some mn \<longrightarrow> map_of temp ''max'' = Some mx \<longrightarrow>
            s ''temp_min'' = Some (PStr (py_str env mn)) \<and>
            s ''temp_max'' = Some (PStr (py_str env mx)))
       \<and> (kvs \<noteq> [] \<longrightarrow>
          map_of kvs ''daily'' = None \<or> map_of kvs ''daily'' = Some (PList []) \<longrightarrow>
            s ''temp_min'' = Some (PStr ''100'') \<and> s ''temp_max'' = Some (PStr ''-100''))
       \<and> (kvs = [] \<longrightarrow> s = Map.empty)"
proof (cases "kvs = []")
  case True
  with assms have "s = Map.empty"
    by (simp add: process_forecast_data_def)
  with True show ?thesis
    by simp
next
  case False
  then have fd: "truthy (PDict kvs)" by simp
  from assms fd slot_free_summary_keys(1) obtain daily temp_min temp_max cb scan wmt info
    where d: "py_get (PDict kvs) ''daily'' (PList []) = Inr daily"
      and mm: "daily_min_max daily = Inr (temp_min, temp_max)"
      and fi: "forecast_info env cb temp_min temp_max scan wmt = Inr info"
      and s_min: "s ''temp_min'' = info ''temp_min''"
    by (rule process_forecast_data_field) blast
  from assms fd slot_free_summary_keys(2) obtain cb' scan' wmt' info' daily' tmin' tmax'
    where d': "py_get (PDict kvs) ''daily'' (PList []) = Inr daily'"
      and mm': "daily_min_max daily' = Inr (tmin', tmax')"
      and fi': "forecast_info env cb' tmin' tmax' scan' wmt' = Inr info'"
      and s_max: "s ''temp_max'' = info' ''temp_max''"
    by (rule process_forecast_data_field) blast
  from d d' mm mm' have same: "tmin' = temp_min" "tmax' = temp_max"
    by simp_all
  from fi s_min have smin: "s ''temp_min'' = Some (PStr (py_str env temp_min))"
    by (simp add: forecast_info_fields(1))
  from fi' s_max same have smax: "s ''temp_max'' = Some (PStr (py_str env temp_max))"
    by (simp add: forecast_info_fields(2))
  have first: "temp_min = mn \<and> temp_max = mx"
    if "map_of kvs ''daily'' = Some (PList (PDict today # rest))"
      and "map_of today ''temp'' = Some (PDict temp)"
      and "map_of temp ''min'' = Some mn" and "map_of temp ''max'' = Some mx"
    using that d mm by (auto simp: daily_min_max_def nested_get_def)
  have none: "temp_min = PInt 100 \<and> temp_max = PInt (- 100)"
    if "map_of kvs ''daily'' = None \<or> map_of kvs ''daily'' = Some (PList [])"
    using that d mm by (auto simp: daily_min_max_def)
  from first none smin smax False show ?thesis
    by (auto simp: int_str_100)
qed

text \<open>C2, a payload the theorem applies to: one daily entry with minimum 12 and maximum 25.\<close>

theorem temp_min_max_of_first_daily_entry_witness:
  "(\<exists>s. process_forecast_data utc_platform (PDict one_day_forecast) = Inr s)
   \<and> summary_field (process_forecast_data utc_platform (PDict one_day_forecast)) ''temp_min''
       = Some (PStr ''12'')
   \<and> summary_field (process_forecast_data utc_platform (PDict one_day_forecast)) ''temp_max''
       = Some (PStr ''25'')"
proof -
  have "summary_field (process_forecast_data utc_platform (PDict one_day_forecast))
          ''temp_min'' = Some (PStr ''12'')"
    by code_simp
  then obtain s where s: "process_forecast_data utc_platform (PDict one_day_forecast) = Inr s"
    using summary_field_SomeD by blast
  have d: "map_of one_day_forecast ''daily''
             = Some (PList (PDict [(''temp'', PDict [(''min'', PInt 12), (''max'', PInt 25)])]
                 # []))"
    by (simp add: one_day_forecast_def)
  have twelve: "int_str 12 = ''12''" and twentyfive: "int_str 25 = ''25''"
    by code_simp+
  from temp_min_max_of_first_daily_entry [OF s, of
      "[(''temp'', PDict [(''min'', PInt 12), (''max'', PInt 25)])]" "[]"
      "[(''min'', PInt 12), (''max'', PInt 25)]" "PInt 12" "PInt 25"] d
  have "s ''temp_min'' = Some (PStr (int_str 12)) \<and> s ''temp_max'' = Some (PStr (int_str 25))"
    by simp
  with s twelve twentyfive show ?thesis
    by simp
qed

text \<open>
  C2 (as the specification words it) fails: with no daily entry the summary holds the
  numbers 100 and -100, not an "unknown" marker.
\<close>

theorem temp_min_max_without_daily_entries:
  "summary_field (process_forecast_data utc_platform (PDict no_day_forecast)) ''temp_min''
     = Some (PStr ''100'')
   \<and> summary_field (process_forecast_data utc_platform (PDict no_day_forecast)) ''temp_max''
     = Some (PStr ''-100'')"
  by code_simp

text \<open>
  C3 (as the code has it). The main weather type is tallied over the first 24 hourly
  samples only. With no sample it is \<open>Unknown\<close>. Otherwise it is one of their categories,
  no category occurs more often, and among the categories that occur as often it is the
  one whose first occurrence is the earliest.
\<close>

theorem main_weather_type_most_frequent_first_seen:
  assumes "process_forecast_data env (PDict kvs) = Inr s"
    and "map_of kvs ''hourly'' = Some (PList hours)"
  shows "\<exists>r. s ''weather_main_type'' = Some r
    \<and> (day_types hours = [] \<longrightarrow> r = PStr ''Unknown'')
    \<and> (day_types hours \<noteq> [] \<longrightarrow>
         r \<in> set (day_types hours)
         \<and> (\<forall>c \<in> set (day_types hours).
               occurrences c (day_types hours) \<le> occurrences r (day_types hours)
               \<and> (occurrences c (day_types hours) = occurrences r (day_types hours)
                    \<longrightarrow> first_pos r (day_types hours) \<le> first_pos c (day_types hours))))"
proof -
  from assms(2) have fd: "truthy (PDict kvs)" by auto
  from assms(1) fd slot_free_summary_keys(5) obtain hourly slice weather_counts cb
    temp_min temp_max scan info
    where h: "py_get (PDict kvs) ''hourly'' (PList []) = Inr hourly"
      and sl: "py_slice_to 24 hourly = Inr slice"
      and ct: "count_types [] slice = Inr weather_counts"
      and fi: "forecast_info env cb temp_min temp_max scan (main_type weather_counts)
                 = Inr info"
      and sk: "s ''weather_main_type'' = info ''weather_main_type''"
    by (rule process_forecast_data_field) blast
  from h assms(2) have "hourly = PList hours" by simp
  with sl have slice: "slice = take 24 hours" by simp
  from count_types_fold [OF ct] slice
  have wc: "weather_counts = fold count_up (day_types hours) []"
    by (simp add: day_types_def)
  have tally: "tally_of weather_counts (day_types hours)"
    unfolding wc by (rule tally_of_fold)
  from fi sk have r: "s ''weather_main_type'' = Some (main_type weather_counts)"
    by (simp add: forecast_info_fields(4))
  have empty: "main_type weather_counts = PStr ''Unknown''" if "day_types hours = []"
    using that wc by (simp add: main_type_def)
  from r empty main_type_first_of_the_most_frequent [OF tally] show ?thesis
    by blast
qed

text \<open>
  C3 on the tally scenario: Rain and Clouds both occur ten times in the window, Rain was
  seen first, and the main weather type is Rain.
\<close>

theorem main_weather_type_most_frequent_first_seen_witness:
  "(\<exists>s. process_forecast_data utc_platform (PDict [(''hourly'', PList scenario_hours)])
          = Inr s)
   \<and> summary_field
        (process_forecast_data utc_platform (PDict [(''hourly'', PList scenario_hours)]))
        ''weather_main_type'' = Some (PStr ''Rain'')
   \<and> occurrences (PStr ''Clouds'') (day_types scenario_hours)
        = occurrences (PStr ''Rain'') (day_types scenario_hours)
   \<and> first_pos (PStr ''Rain'') (day_types scenario_hours)
        \<le> first_pos (PStr ''Clouds'') (day_types scenario_hours)"
proof -
  let ?fd = "PDict [(''hourly'', PList scenario_hours)]"
  have rain: "summary_field (process_forecast_data utc_platform ?fd) ''weather_main_type''
                = Some (PStr ''Rain'')"
    by code_simp
  then obtain s where s: "process_forecast_data utc_platform ?fd = Inr s"
    using summary_field_SomeD by blast
  have h: "map_of [(''hourly'', PList scenario_hours)] ''hourly'' = Some (PList scenario_hours)"
    by simp
  have tie: "occurrences (PStr ''Clouds'') (day_types scenario_hours)
               = occurrences (PStr ''Rain'') (day_types scenario_hours)"
    by code_simp
  have clouds: "PStr ''Clouds'' \<in> set (day_types scenario_hours)"
    by code_simp
  have window: "day_types scenario_hours \<noteq> []"
    by code_simp
  from main_weather_type_most_frequent_first_seen [OF s h] rain s window
  have "\<forall>c \<in> set (day_types scenario_hours).
          occurrences c (day_types scenario_hours)
            = occurrences (PStr ''Rain'') (day_types scenario_hours)
          \<longrightarrow> first_pos (PStr ''Rain'') (day_types scenario_hours)
                \<le> first_pos c (day_types scenario_hours)"
    by auto
  with clouds tie have "first_pos (PStr ''Rain'') (day_types scenario_hours)
                          \<le> first_pos (PStr ''Clouds'') (day_types scenario_hours)"
    by blast
  with rain s tie show ?thesis
    by simp
qed

text \<open>
  C3 (as the specification words it) fails. In the sequence Rain, Clouds, Clouds, Rain
  both categories occur twice and Clouds is the first to reach two, yet the main weather
  type is Rain, the category seen first.
\<close>

theorem main_weather_type_not_first_to_reach_max:
  "summary_field (process_forecast_data utc_platform (PDict [(''hourly'', PList tie_hours)]))
     ''weather_main_type'' = Some (PStr ''Rain'')
   \<and> spec_first_to_reach_max (day_types tie_hours) = Some (PStr ''Clouds'')"
  by code_simp




text \<open>
  C5 (as the code has it). On the scenario text \<open>clean_text\<close> strips the bold markers, turns
  the heading into a plain line and removes the fenced block; the line that held the block
  stays behind as an empty line, because the fences are removed last, after the whitespace
  has been normalised. The result is \<open>"Hello\nGreetings\n\nGoodbye"\<close>.
\<close>

theorem clean_text_scenario:
  "clean_text scenario_text = ''Hello'' @ [NL] @ ''Greetings'' @ [NL, NL] @ ''Goodbye''"
  by code_simp

text \<open>
  C5 (as the specification words it) fails: the result is not
  \<open>"Hello\nGreetings\nGoodbye"\<close>.
\<close>

theorem clean_text_scenario_not_single_newline:
  "clean_text scenario_text \<noteq> ''Hello'' @ [NL] @ ''Greetings'' @ [NL] @ ''Goodbye''"
  by code_simp




text \<open>
  C7 (as the code has it). From the selection on, the function returns exactly the three
  keys \<open>activity_suggestion_1\<close> to \<open>activity_suggestion_3\<close> with non-empty texts, whatever
  the number of candidates: of more than three candidates it returns the three that
  \<open>random.sample\<close> picks, at three different positions; of at most three it returns all,
  followed by the filler of the language up to three. The function reaches the selection
  when \<open>weather_main_type\<close> has a \<open>lower\<close> method and \<open>float\<close> reads \<open>temp_min\<close>,
  \<open>temp_max\<close> and \<open>max_precip\<close> (each absent, a number, or numeric text); the candidates
  are then at least three non-empty texts.
\<close>

theorem exactly_three_suggestions:
  assumes "\<forall>n. 3 < n \<longrightarrow> sample_ok rng n 3"
  shows "(list_all (\<lambda>s. s \<noteq> []) suggestions \<longrightarrow>
            dom (finish_suggestions rng language suggestions) = suggestion_keys
            \<and> list_all (\<lambda>s. s \<noteq> [])
                (suggestion_values (finish_suggestions rng language suggestions))
            \<and> (3 < length suggestions \<longrightarrow>
                 suggestion_values (finish_suggestions rng language suggestions)
                   = map (\<lambda>i. suggestions ! i) (rng (length suggestions) 3)
                 \<and> distinct (rng (length suggestions) 3)
                 \<and> list_all (\<lambda>i. i < length suggestions) (rng (length suggestions) 3))
            \<and> (length suggestions \<le> 3 \<longrightarrow>
                 suggestion_values (finish_suggestions rng language suggestions)
                   = suggestions @ replicate (3 - length suggestions) (filler language)))
       \<and> (py_lower (dict_get weather_info ''weather_main_type'' (PStr [])) = Inr weather_type
            \<longrightarrow> py_float env (dict_get weather_info ''temp_min'' (PInt 0)) = Inr temp_min
            \<longrightarrow> py_float env (dict_get weather_info ''temp_max'' (PInt 0)) = Inr temp_max
            \<longrightarrow> py_float env (dict_get weather_info ''max_precip'' (PInt 0)) = Inr precip_peak
            \<longrightarrow> generate_activity_suggestions env rng weather_info language
                  = Inr (finish_suggestions rng language
                           (suggestion_pool language weather_type temp_min temp_max
                              precip_peak))
                \<and> list_all (\<lambda>s. s \<noteq> [])
                    (suggestion_pool language weather_type temp_min temp_max precip_peak)
                \<and> 3 \<le> length
                    (suggestion_pool language weather_type temp_min temp_max precip_peak))"
proof -
  let ?sel = "select_three rng suggestions"
  let ?d = "finish_suggestions rng language suggestions"
  from assms have ok: "3 < length suggestions \<longrightarrow> sample_ok rng (length suggestions) 3"
    by simp
  then have len: "length ?sel \<le> 3" by (rule select_three_length)
  from build_dict_shape [OF len, of language] have
    dom: "dom ?d = suggestion_keys"
    and vals: "suggestion_values ?d = ?sel @ replicate (3 - length ?sel) (filler language)"
    by (simp_all add: finish_suggestions_def)
  have many: "suggestion_values ?d = map (\<lambda>i. suggestions ! i) (rng (length suggestions) 3)
      \<and> distinct (rng (length suggestions) 3)
      \<and> list_all (\<lambda>i. i < length suggestions) (rng (length suggestions) 3)"
    if "3 < length suggestions"
    using that ok vals by (simp add: select_three_def sample_ok_def)
  have few: "suggestion_values ?d
      = suggestions @ replicate (3 - length suggestions) (filler language)"
    if "length suggestions \<le> 3"
    using that vals by (simp add: select_three_def)
  have nonempty: "list_all (\<lambda>s. s \<noteq> []) (suggestion_values ?d)"
    if "list_all (\<lambda>s. s \<noteq> []) suggestions"
  proof -
    from that select_three_subset [OF ok] have "list_all (\<lambda>s. s \<noteq> []) ?sel"
      by (auto simp: list_all_iff)
    moreover have "filler language \<noteq> []"
      using filler_wrapped by (rule li_wrapped_nonempty)
    ultimately show ?thesis
      unfolding vals by (auto simp: list_all_iff)
  qed
  have pool: "list_all (\<lambda>s. s \<noteq> []) (suggestion_pool language w a b c)" for w a b c
    using suggestion_pool_wrapped [of language w a b c] li_wrapped_nonempty
    by (auto simp: list_all_iff)
  from dom many few nonempty pool suggestion_pool_length
    generate_activity_suggestions_reads [of weather_info weather_type env temp_min temp_max
      precip_peak rng language]
  show ?thesis by blast
qed

text \<open>
  C7 on a hot and rainy summary: five candidates, of which the sampler of the evaluation
  picks the first three.
\<close>

theorem exactly_three_suggestions_witness:
  "generate_activity_suggestions utc_platform first_positions hot_rainy_summary ''en''
     = Inr (finish_suggestions first_positions ''en'' (suggestion_pool ''en'' ''rain'' 12 35 80))
   \<and> length (suggestion_pool ''en'' ''rain'' 12 35 80) = 5
   \<and> dom (finish_suggestions first_positions ''en'' (suggestion_pool ''en'' ''rain'' 12 35 80))
       = suggestion_keys
   \<and> suggestion_values
        (finish_suggestions first_positions ''en'' (suggestion_pool ''en'' ''rain'' 12 35 80))
       = map (\<lambda>i. suggestion_pool ''en'' ''rain'' 12 35 80 ! i) (first_positions 5 3)"
proof -
  let ?pool = "suggestion_pool ''en'' ''rain'' 12 35 80"
  have rng: "\<forall>n. 3 < n \<longrightarrow> sample_ok first_positions n 3"
    by (simp add: sample_ok_first_positions)
  have w: "py_lower (dict_get hot_rainy_summary ''weather_main_type'' (PStr [])) = Inr ''rain''"
    by code_simp
  have a: "py_float utc_platform (dict_get hot_rainy_summary ''temp_min'' (PInt 0)) = Inr 12"
    by code_simp
  have b: "py_float utc_platform (dict_get hot_rainy_summary ''temp_max'' (PInt 0)) = Inr 35"
    by code_simp
  have c: "py_float utc_platform (dict_get hot_rainy_summary ''max_precip'' (PInt 0)) = Inr 80"
    by code_simp
  have five: "length ?pool = 5"
    by code_simp
  have nonempty: "list_all (\<lambda>s. s \<noteq> []) ?pool"
    using suggestion_pool_wrapped [of "''en''" "''rain''" 12 35 80] li_wrapped_nonempty
    by (auto simp: list_all_iff)
  from exactly_three_suggestions [OF rng, of ?pool "''en''" hot_rainy_summary "''rain''"
      utc_platform 12 35 80] w a b c five nonempty
  show ?thesis by simp
qed

text \<open>
  C7 (as the specification words it) fails: on a summary whose \<open>temp_min\<close> is the text
  \<open>unknown\<close> the function raises \<open>ValueError\<close> and returns nothing.
\<close>

theorem suggestions_of_unknown_temp_min:
  "map_sum id dom
     (generate_activity_suggestions utc_platform first_positions unknown_min_summary ''en'')
     = Inl ValueError"
  by (simp add: generate_activity_suggestions_def unknown_min_summary_def dict_get_def
      utc_platform_def unsigned_decimal_def is_digit_def)






text \<open>
  C9. A location that has a snapshot row keeps the keys of the snapshot table through
  two updates in a row, whatever the collaborators answer: the update writes the row in
  place. A cycle never makes two rows of one (city, country) where there was none. When
  every location the cycle can reach is tracked (each city row, each default city and the
  default weather city has a snapshot row), two cycles in a row leave the snapshot table
  with the same keys and the same number of rows.
\<close>

theorem refresh_keeps_snapshot_row_count:
  "(city_key c \<in> set (snapshot_keys (db w)) \<longrightarrow>
      snapshot_keys (db (update_city_weather env conf api svc oa later c
                           (update_city_weather env conf api svc oa now c w)))
        = snapshot_keys (db w))
   \<and> (distinct (snapshot_keys (db w)) \<longrightarrow>
        distinct (snapshot_keys (db (snd (update_weather_data env conf api svc oa now w)))))
   \<and> (locations_tracked conf (db w) \<longrightarrow>
        snapshot_keys (db (snd (update_weather_data env conf api svc oa later
                                  (snd (update_weather_data env conf api svc oa now w)))))
          = snapshot_keys (db w)
        \<and> length (weather_rows (db (snd (update_weather_data env conf api svc oa later
                                  (snd (update_weather_data env conf api svc oa now w))))))
          = length (weather_rows (db w)))"
proof -
  have one: "snapshot_keys (db (update_city_weather env conf api svc oa later c
                           (update_city_weather env conf api svc oa now c w)))
        = snapshot_keys (db w)" if "city_key c \<in> set (snapshot_keys (db w))"
  proof -
    let ?w1 = "update_city_weather env conf api svc oa now c w"
    from that have first: "snapshot_keys (db ?w1) = snapshot_keys (db w)"
      by (rule update_city_weather_tracked)
    with that have "city_key c \<in> set (snapshot_keys (db ?w1))" by simp
    then have "snapshot_keys (db (update_city_weather env conf api svc oa later c ?w1))
        = snapshot_keys (db ?w1)"
      by (rule update_city_weather_tracked)
    with first show ?thesis by simp
  qed
  have two: "snapshot_keys (db (snd (update_weather_data env conf api svc oa later
                                  (snd (update_weather_data env conf api svc oa now w)))))
          = snapshot_keys (db w)" if "locations_tracked conf (db w)"
  proof -
    let ?w1 = "snd (update_weather_data env conf api svc oa now w)"
    from update_weather_data_tracked [OF that, of env api svc oa now] have
      first: "snapshot_keys (db ?w1) = snapshot_keys (db w)"
      and again: "locations_tracked conf (db ?w1)"
      by simp_all
    from update_weather_data_tracked [OF again, of env api svc oa later] first
    show ?thesis by simp
  qed
  have len: "length (weather_rows d) = length (snapshot_keys d)" for d
    by (simp add: snapshot_keys_def)
  from one two update_weather_data_distinct [of w env conf api svc oa now] show ?thesis
    by (simp add: len)
qed

text \<open>
  C9 in the world of two locations, both tracked: after two cycles the snapshot table
  still has its two rows.
\<close>

theorem refresh_keeps_snapshot_row_count_witness:
  "city_key oslo \<in> set (snapshot_keys (db two_locations))
   \<and> locations_tracked north_settings (db two_locations)
   \<and> distinct (snapshot_keys (db two_locations))
   \<and> snapshot_keys (db (update_city_weather utc_platform north_settings north_api
        greeting_service True 11 oslo
        (update_city_weather utc_platform north_settings north_api greeting_service True 9
           oslo two_locations)))
       = [(''Oslo'', ''NO''), (''Atlantis'', ''XX'')]
   \<and> length (weather_rows (db (snd (update_weather_data utc_platform north_settings north_api
        greeting_service True 11
        (snd (update_weather_data utc_platform north_settings north_api greeting_service
                True 9 two_locations)))))) = 2
   \<and> distinct (snapshot_keys (db (snd (update_weather_data utc_platform north_settings
        north_api greeting_service True 9 two_locations))))"
proof -
  have k: "city_key oslo \<in> set (snapshot_keys (db two_locations))"
    by code_simp
  have t: "locations_tracked north_settings (db two_locations)"
    by code_simp
  have d: "distinct (snapshot_keys (db two_locations))"
    by code_simp
  have n: "length (weather_rows (db two_locations)) = 2"
    by code_simp
  have s: "snapshot_keys (db two_locations) = [(''Oslo'', ''NO''), (''Atlantis'', ''XX'')]"
    by code_simp
  note r = refresh_keeps_snapshot_row_count
    [of oslo two_locations utc_platform north_settings north_api greeting_service True 11 9]
  from r k have a: "snapshot_keys (db (update_city_weather utc_platform north_settings north_api
        greeting_service True 11 oslo
        (update_city_weather utc_platform north_settings north_api greeting_service True 9
           oslo two_locations))) = snapshot_keys (db two_locations)"
    by blast
  from r d have b: "distinct (snapshot_keys (db (snd (update_weather_data utc_platform
        north_settings north_api greeting_service True 9 two_locations))))"
    by blast
  from r t have c: "length (weather_rows (db (snd (update_weather_data utc_platform
        north_settings north_api greeting_service True 11
        (snd (update_weather_data utc_platform north_settings north_api greeting_service
                True 9 two_locations)))))) = length (weather_rows (db two_locations))"
    by blast
  from k t d a [unfolded s] b c [unfolded n] show ?thesis
    by simp
qed

end
